theory Spec2Isabelle
  imports Complex_Main "HOL-Library.Sublist" "HOL-Library.Log_Nat"
begin

section \<open>JavaScript values\<close>

text \<open>The characters of the server's messages that are not ASCII, by their code unit.\<close>

abbreviation a_acute :: char where "a_acute \<equiv> CHR 0xE1"
abbreviation i_acute :: char where "i_acute \<equiv> CHR 0xED"
abbreviation o_acute :: char where "o_acute \<equiv> CHR 0xF3"
abbreviation inverted_exclamation :: char where "inverted_exclamation \<equiv> CHR 0xA1"
abbreviation inverted_question :: char where "inverted_question \<equiv> CHR 0xBF"
abbreviation multiplication_sign :: char where "multiplication_sign \<equiv> CHR 0xD7"
abbreviation division_sign :: char where "division_sign \<equiv> CHR 0xF7"
abbreviation u_acute :: char where "u_acute \<equiv> CHR 0xFA"
abbreviation apostrophe :: char where "apostrophe \<equiv> CHR 0x27"

text \<open>
  A JavaScript string is a sequence of UTF-16 code units. The model uses \<open>string\<close>, one
  \<open>char\<close> per code unit, which covers the code units below 256 (ASCII and Latin-1: every
  character of the server's own messages is in that range). \<open>length\<close> is then the
  \<open>.length\<close> of the source.

  A JavaScript number is an IEEE 754 binary64 value: a finite value (an exact rational;
  \<open>Fin 0\<close> is \<open>+0\<close>), the negative zero, the two infinities, or NaN.
\<close>

datatype jsnum = Fin rat | NegZero | PosInf | NegInf | NaN

text \<open>
  The raw arguments of a tool call (\<open>args: any\<close>): \<open>JUndefined\<close> is the value of a
  property that is absent. An object is an association list of its own properties;
  \<open>map_of\<close> reads a property.
\<close>

datatype json =
    JUndefined
  | JNull
  | JBool (the_bool: bool)
  | JNum (the_num: jsnum)
  | JStr (the_str: string)
  | JArr "json list"
  | JObj "(string \<times> json) list"

text \<open>\<open>data[key]\<close>: the property, or \<open>undefined\<close> when the object has none of that name.\<close>

definition js_get :: "(string \<times> json) list \<Rightarrow> string \<Rightarrow> json" where
  "js_get kvs key = (case map_of kvs key of None \<Rightarrow> JUndefined | Some v \<Rightarrow> v)"

text \<open>
  \<open>data.key\<close> on a value: the model reads properties of objects only (a schema output, a
  validated input), so any other value has none.
\<close>

fun js_prop :: "json \<Rightarrow> string \<Rightarrow> json" where
  "js_prop (JObj kvs) key = js_get kvs key"
| "js_prop _ key = JUndefined"

text \<open>\<open>key in data\<close>.\<close>

definition js_in :: "string \<Rightarrow> (string \<times> json) list \<Rightarrow> bool" where
  "js_in key kvs = (map_of kvs key \<noteq> None)"

text \<open>\<open>Number.isFinite\<close> and \<open>x === 0\<close> (true of both zeros).\<close>

fun Number_isFinite :: "jsnum \<Rightarrow> bool" where
  "Number_isFinite (Fin r) = True"
| "Number_isFinite NegZero = True"
| "Number_isFinite _ = False"

fun js_is_zero :: "jsnum \<Rightarrow> bool" where
  "js_is_zero (Fin r) = (r = 0)"
| "js_is_zero NegZero = True"
| "js_is_zero _ = False"

text \<open>
  \<open>String.prototype.toLowerCase\<close> on the code units below 256: the ASCII capitals and
  the Latin-1 capitals (all of \<open>0xC0..0xDE\<close> but the multiplication sign \<open>0xD7\<close>) move up
  by 32; every other code unit is unchanged.
\<close>

definition toLowerCase_char :: "char \<Rightarrow> char" where
  "toLowerCase_char c =
     (let n = (of_char c :: nat) in
      if (65 \<le> n \<and> n \<le> 90) \<or> (192 \<le> n \<and> n \<le> 222 \<and> n \<noteq> 215)
      then char_of (n + 32) else c)"

definition toLowerCase :: "string \<Rightarrow> string" where
  "toLowerCase s = map toLowerCase_char s"

text \<open>\<open>Array.prototype.join\<close> on an array of strings.\<close>

fun js_join :: "string \<Rightarrow> string list \<Rightarrow> string" where
  "js_join sep [] = []"
| "js_join sep [x] = x"
| "js_join sep (x # y # ys) = x @ sep @ js_join sep (y # ys)"

section \<open>Errors and results\<close>

datatype ErrorCode = MethodNotFound | InvalidParams | InternalError

datatype ZodIssue = ZodIssue (issue_path: "string list") (issue_message: string)

text \<open>
  What a \<open>throw\<close> carries: a \<open>ZodError\<close> with its issues, an \<open>McpError\<close> with the code and
  the message given to its constructor, or a plain \<open>Error\<close> (also a \<open>RangeError\<close> of the
  runtime) with its message. A function that can throw returns \<open>js_error + 'a\<close>.
\<close>

datatype js_error =
    ZodError "ZodIssue list"
  | McpError ErrorCode string
  | Error string

text \<open>The result of a tool: \<open>{ content: [{ type: "text", text }] }\<close>.\<close>

datatype content_item = TextContent (item_text: string)

record ToolResult =
  content :: "content_item list"

text \<open>
  The calls that an invocation makes, in order: a resolver (adapter) entered, a use case
  (handler) executed.
\<close>

datatype call = ResolverCall string | UseCaseCall string

type_synonym 'a traced = "call list \<times> (js_error + 'a)"

text \<open>
  What the code reads from the JavaScript runtime: the clock (\<open>new Date()\<close>: its local hour
  and its ISO timestamp), the time zones that \<open>Intl\<close> knows with the message of the
  \<open>RangeError\<close> for one it does not know and the text it formats for one it knows, and the
  digits that \<open>Number.prototype.toString\<close> generates for a number that is not an integer
  of magnitude up to \<open>2^53\<close>.
\<close>

datatype date_style = CortoOptions | HoraOptions | CompletoOptions | LargoOptions

record runtime =
  getHours :: nat
  toISOString :: string
  validTimeZone :: "string \<Rightarrow> bool"
  invalidTimeZoneMessage :: "string \<Rightarrow> string"
  toLocaleString :: "date_style \<Rightarrow> string \<Rightarrow> string"
  shortestDigits :: "rat \<Rightarrow> string"

section \<open>Numbers: arithmetic and formatting\<close>

text \<open>
  Rounding to binary64 (round to nearest, ties to even) of a real that is not zero: the
  value is a multiple of the unit in the last place of its binade (of the smallest binade
  for a subnormal); a magnitude that rounds to \<open>2^1024\<close> or more is an infinity, one that
  rounds to nothing is a zero of the same sign.
\<close>

definition pow2 :: "int \<Rightarrow> rat" where
  "pow2 e = (if 0 \<le> e then 2 ^ nat e else 1 / 2 ^ nat (- e))"

text \<open>For \<open>0 < r\<close>, the exponent \<open>e\<close> with \<open>pow2 e \<le> r < pow2 (e + 1)\<close>.\<close>

definition ilog2 :: "rat \<Rightarrow> int" where
  "ilog2 r =
     (if 1 \<le> r then int (floorlog 2 (nat \<lfloor>r\<rfloor>)) - 1
      else - int (floorlog 2 (nat (\<lceil>1 / r\<rceil> - 1))))"

definition round_half_even :: "rat \<Rightarrow> int" where
  "round_half_even q =
     (let f = \<lfloor>q\<rfloor>; d = q - of_int f
      in if d < 1 / 2 then f else if 1 / 2 < d then f + 1
         else if even f then f else f + 1)"

definition round64 :: "rat \<Rightarrow> jsnum" where
  "round64 r =
     (let m = \<bar>r\<bar>;
          e = max (ilog2 m) (- 1022);
          ulp = pow2 (e - 52);
          n = round_half_even (m / ulp);
          v = of_int n * ulp
      in if pow2 1024 \<le> v then (if 0 < r then PosInf else NegInf)
         else if n = 0 then (if 0 < r then Fin 0 else NegZero)
         else Fin (if 0 < r then v else - v))"

fun js_negative :: "jsnum \<Rightarrow> bool" where
  "js_negative (Fin r) = (r < 0)"
| "js_negative NegZero = True"
| "js_negative NegInf = True"
| "js_negative _ = False"

fun js_value :: "jsnum \<Rightarrow> rat" where
  "js_value (Fin r) = r"
| "js_value _ = 0"

definition js_infinite :: "jsnum \<Rightarrow> bool" where
  "js_infinite x = (x = PosInf \<or> x = NegInf)"

definition signed_zero :: "bool \<Rightarrow> jsnum" where
  "signed_zero neg = (if neg then NegZero else Fin 0)"

definition signed_infinity :: "bool \<Rightarrow> jsnum" where
  "signed_infinity neg = (if neg then NegInf else PosInf)"

fun js_neg :: "jsnum \<Rightarrow> jsnum" where
  "js_neg (Fin r) = (if r = 0 then NegZero else Fin (- r))"
| "js_neg NegZero = Fin 0"
| "js_neg PosInf = NegInf"
| "js_neg NegInf = PosInf"
| "js_neg NaN = NaN"

text \<open>The operators \<open>+\<close>, \<open>-\<close>, \<open>*\<close> and \<open>/\<close> on two numbers.\<close>

definition js_add :: "jsnum \<Rightarrow> jsnum \<Rightarrow> jsnum" where
  "js_add x y =
     (if x = NaN \<or> y = NaN then NaN
      else if x = PosInf then (if y = NegInf then NaN else PosInf)
      else if x = NegInf then (if y = PosInf then NaN else NegInf)
      else if js_infinite y then y
      else
        (let s = js_value x + js_value y
         in if s = 0 then (if x = NegZero \<and> y = NegZero then NegZero else Fin 0)
            else round64 s))"

definition js_sub :: "jsnum \<Rightarrow> jsnum \<Rightarrow> jsnum" where
  "js_sub x y = js_add x (js_neg y)"

definition js_mul :: "jsnum \<Rightarrow> jsnum \<Rightarrow> jsnum" where
  "js_mul x y =
     (let neg = (js_negative x \<noteq> js_negative y)
      in if x = NaN \<or> y = NaN then NaN
         else if js_infinite x then (if js_is_zero y then NaN else signed_infinity neg)
         else if js_infinite y then (if js_is_zero x then NaN else signed_infinity neg)
         else
           (let p = js_value x * js_value y
            in if p = 0 then signed_zero neg else round64 p))"

definition js_div :: "jsnum \<Rightarrow> jsnum \<Rightarrow> jsnum" where
  "js_div x y =
     (let neg = (js_negative x \<noteq> js_negative y)
      in if x = NaN \<or> y = NaN then NaN
         else if js_infinite x then (if js_infinite y then NaN else signed_infinity neg)
         else if js_infinite y then signed_zero neg
         else if js_is_zero y then (if js_is_zero x then NaN else signed_infinity neg)
         else if js_is_zero x then signed_zero neg
         else round64 (js_value x / js_value y))"

fun Number_isInteger :: "jsnum \<Rightarrow> bool" where
  "Number_isInteger (Fin r) = (of_int \<lfloor>r\<rfloor> = r)"
| "Number_isInteger NegZero = True"
| "Number_isInteger _ = False"

text \<open>The decimal digits of a natural number.\<close>

fun show_nat :: "nat \<Rightarrow> string" where
  "show_nat n =
     (if n < 10 then [char_of (48 + n)]
      else show_nat (n div 10) @ [char_of (48 + n mod 10)])"

declare show_nat.simps [simp del]

text \<open>
  \<open>Number.prototype.toString\<close> (also what a template literal does to a number): an
  integer of magnitude up to \<open>2^53\<close> is written with its decimal digits; for any other
  finite number the digits are the shortest that read back as the same number, which the
  runtime generates.
\<close>

definition Number_toString :: "runtime \<Rightarrow> jsnum \<Rightarrow> string" where
  "Number_toString rt x =
     (case x of
        NaN \<Rightarrow> ''NaN''
      | PosInf \<Rightarrow> ''Infinity''
      | NegInf \<Rightarrow> ''-Infinity''
      | NegZero \<Rightarrow> ''0''
      | Fin r \<Rightarrow>
          (if of_int \<lfloor>r\<rfloor> = r \<and> \<bar>r\<bar> \<le> 2 ^ 53
           then (if r < 0 then ''-'' else []) @ show_nat (nat \<bar>\<lfloor>r\<rfloor>\<bar>)
           else shortestDigits rt r))"

text \<open>
  \<open>Number.prototype.toFixed(f)\<close>: a number that is not finite is written as \<open>toString\<close>
  does; otherwise the sign, then (below \<open>10^21\<close>) the integer nearest to the magnitude
  times \<open>10^f\<close>, the larger of two that are as near, padded with zeros to \<open>f + 1\<close> digits,
  with the point before its last \<open>f\<close> digits.
\<close>

definition Number_toFixed :: "runtime \<Rightarrow> jsnum \<Rightarrow> nat \<Rightarrow> string" where
  "Number_toFixed rt x f =
     (if \<not> Number_isFinite x then Number_toString rt x
      else
        (let r = js_value x;
             s = (if r < 0 then ''-'' else []);
             r = \<bar>r\<bar>
         in if 10 ^ 21 \<le> r then s @ Number_toString rt (Fin r)
            else
              (let n = nat \<lfloor>r * 10 ^ f + 1 / 2\<rfloor>;
                   m = show_nat n;
                   m = (if f \<noteq> 0 then
                          (let m = (if length m \<le> f
                                    then replicate (f + 1 - length m) CHR ''0'' @ m else m);
                               k = length m
                           in take (k - f) m @ ''.'' @ drop (k - f) m)
                        else m)
               in s @ m)))"

text \<open>
  \<open>str.replace(/\.?0+$/, '')\<close>: the match that starts leftmost is removed; a match is an
  optional point and then one or more zeros up to the end of the string.
\<close>

definition zeros_to_end :: "string \<Rightarrow> bool" where
  "zeros_to_end cs = (cs \<noteq> [] \<and> (\<forall>c \<in> set cs. c = CHR ''0''))"

fun matches_point_zeros :: "string \<Rightarrow> bool" where
  "matches_point_zeros [] = False"
| "matches_point_zeros (c # cs) = (if c = CHR ''.'' then zeros_to_end cs else zeros_to_end (c # cs))"

fun replace_point_zeros :: "string \<Rightarrow> string" where
  "replace_point_zeros [] = []"
| "replace_point_zeros (c # cs) =
     (if matches_point_zeros (c # cs) then [] else c # replace_point_zeros cs)"

section \<open>The schema validators of zod (version 3)\<close>

text \<open>
  A schema parses a value at a path. It returns \<open>OK v\<close>, \<open>DIRTY v\<close> (a value, but issues
  were reported) or \<open>INVALID\<close> (aborted), and the issues it added to the context, in order.
\<close>

datatype ParseReturn = INVALID | DIRTY json | OK json

type_synonym ZodType = "string list \<Rightarrow> json \<Rightarrow> ParseReturn \<times> ZodIssue list"

fun getParsedType :: "json \<Rightarrow> string" where
  "getParsedType JUndefined = ''undefined''"
| "getParsedType JNull = ''null''"
| "getParsedType (JBool b) = ''boolean''"
| "getParsedType (JNum NaN) = ''nan''"
| "getParsedType (JNum x) = ''number''"
| "getParsedType (JStr s) = ''string''"
| "getParsedType (JArr xs) = ''array''"
| "getParsedType (JObj kvs) = ''object''"

text \<open>The default error map on an \<open>invalid_type\<close> issue.\<close>

definition invalid_type_message :: "string \<Rightarrow> json \<Rightarrow> string" where
  "invalid_type_message expected data =
     (if getParsedType data = ''undefined'' then ''Required''
      else ''Expected '' @ expected @ '', received '' @ getParsedType data)"

datatype string_check = Min nat string | Max nat string

fun string_check_issues :: "string list \<Rightarrow> string \<Rightarrow> string_check \<Rightarrow> ZodIssue list" where
  "string_check_issues p s (Min n msg) = (if length s < n then [ZodIssue p msg] else [])"
| "string_check_issues p s (Max n msg) = (if length s > n then [ZodIssue p msg] else [])"

text \<open>\<open>z.string()\<close> with its checks: a wrong type aborts, a failed check makes the result dirty.\<close>

definition ZodString :: "string_check list \<Rightarrow> ZodType" where
  "ZodString checks p data =
     (case data of
        JStr s \<Rightarrow>
          (let issues = concat (map (string_check_issues p s) checks)
           in (if issues = [] then OK (JStr s) else DIRTY (JStr s), issues))
      | _ \<Rightarrow> (INVALID, [ZodIssue p (invalid_type_message ''string'' data)]))"

datatype number_check = Finite string

fun number_check_issues :: "string list \<Rightarrow> jsnum \<Rightarrow> number_check \<Rightarrow> ZodIssue list" where
  "number_check_issues p x (Finite msg) = (if \<not> Number_isFinite x then [ZodIssue p msg] else [])"

text \<open>\<open>z.number()\<close> with its checks: NaN has the parsed type \<open>nan\<close> and is a wrong type.\<close>

definition ZodNumber :: "number_check list \<Rightarrow> ZodType" where
  "ZodNumber checks p data =
     (case data of
        JNum x \<Rightarrow>
          (if x = NaN then (INVALID, [ZodIssue p (invalid_type_message ''number'' data)])
           else
             (let issues = concat (map (number_check_issues p x) checks)
              in (if issues = [] then OK (JNum x) else DIRTY (JNum x), issues)))
      | _ \<Rightarrow> (INVALID, [ZodIssue p (invalid_type_message ''number'' data)]))"

definition ZodBoolean :: ZodType where
  "ZodBoolean p data =
     (case data of
        JBool b \<Rightarrow> (OK (JBool b), [])
      | _ \<Rightarrow> (INVALID, [ZodIssue p (invalid_type_message ''boolean'' data)]))"

text \<open>
  \<open>z.enum(values, { errorMap: () => ({ message }) })\<close>: the schema's error map gives the
  message of both of its issues (not a string, not one of the values); both abort.
\<close>

definition ZodEnum :: "string list \<Rightarrow> string \<Rightarrow> ZodType" where
  "ZodEnum values msg p data =
     (case data of
        JStr s \<Rightarrow> (if s \<in> set values then (OK (JStr s), []) else (INVALID, [ZodIssue p msg]))
      | _ \<Rightarrow> (INVALID, [ZodIssue p msg]))"

definition ZodOptional :: "ZodType \<Rightarrow> ZodType" where
  "ZodOptional inner p data =
     (if data = JUndefined then (OK JUndefined, []) else inner p data)"

definition ZodDefault :: "ZodType \<Rightarrow> json \<Rightarrow> ZodType" where
  "ZodDefault inner defaultValue p data =
     inner p (if data = JUndefined then defaultValue else data)"

text \<open>\<open>z.preprocess(f, schema)\<close> with an \<open>f\<close> that reports no issue.\<close>

definition ZodPreprocess :: "(json \<Rightarrow> json) \<Rightarrow> ZodType \<Rightarrow> ZodType" where
  "ZodPreprocess f inner p data = inner p (f data)"

text \<open>
  \<open>schema.refine(check, { message, path })\<close>: the inner schema is parsed first; when it
  aborted the check does not run; otherwise it runs on the inner value (also a dirty one),
  and a failed check adds its issue at the given path under the current one.
\<close>

definition ZodRefine :: "ZodType \<Rightarrow> (json \<Rightarrow> bool) \<Rightarrow> string \<Rightarrow> string list \<Rightarrow> ZodType" where
  "ZodRefine inner check msg sub p data =
     (case inner p data of
        (INVALID, issues) \<Rightarrow> (INVALID, issues)
      | (DIRTY v, issues) \<Rightarrow>
          (DIRTY v, issues @ (if check v then [] else [ZodIssue (p @ sub) msg]))
      | (OK v, issues) \<Rightarrow>
          (if check v then (OK v, issues) else (DIRTY v, issues @ [ZodIssue (p @ sub) msg])))"

text \<open>
  \<open>ParseStatus.mergeObjectSync\<close> on the pairs (key, parsed value, \<open>alwaysSet\<close>): aborted
  as soon as one value is; a key is set when its value is not \<open>undefined\<close> or the key was
  in the data.
\<close>

fun mergeObjectSync :: "bool \<Rightarrow> (string \<times> json) list \<Rightarrow> (string \<times> ParseReturn \<times> bool) list \<Rightarrow> ParseReturn" where
  "mergeObjectSync dirty final [] = (if dirty then DIRTY (JObj final) else OK (JObj final))"
| "mergeObjectSync dirty final ((key, INVALID, alwaysSet) # pairs) = INVALID"
| "mergeObjectSync dirty final ((key, DIRTY v, alwaysSet) # pairs) =
     mergeObjectSync True
       (if key \<noteq> ''__proto__'' \<and> (v \<noteq> JUndefined \<or> alwaysSet) then final @ [(key, v)] else final)
       pairs"
| "mergeObjectSync dirty final ((key, OK v, alwaysSet) # pairs) =
     mergeObjectSync dirty
       (if key \<noteq> ''__proto__'' \<and> (v \<noteq> JUndefined \<or> alwaysSet) then final @ [(key, v)] else final)
       pairs"

text \<open>
  \<open>z.object(shape)\<close> (unknown keys: strip, the default). Data that is not an object
  aborts. Otherwise every key of the shape is parsed, in the order of the shape, on
  \<open>data[key]\<close> at the path extended by the key; the issues of all of them are kept; keys
  of the data that the shape does not have are never read.
\<close>

definition ZodObject :: "(string \<times> ZodType) list \<Rightarrow> ZodType" where
  "ZodObject shape p data =
     (case data of
        JObj kvs \<Rightarrow>
          (let results = map (\<lambda>(key, validator). (key, validator (p @ [key]) (js_get kvs key))) shape
           in (mergeObjectSync False []
                 (map (\<lambda>(key, r). (key, fst r, js_in key kvs)) results),
               concat (map (\<lambda>(key, r). snd r) results)))
      | _ \<Rightarrow> (INVALID, [ZodIssue p (invalid_type_message ''object'' data)]))"

text \<open>\<open>schema.parse(data)\<close>: the value when the result is valid, a \<open>ZodError\<close> otherwise.\<close>

definition zod_parse :: "ZodType \<Rightarrow> json \<Rightarrow> js_error + json" where
  "zod_parse schema data =
     (case schema [] data of
        (OK v, issues) \<Rightarrow> Inr v
      | (_, issues) \<Rightarrow> Inl (ZodError issues))"

text \<open>
  The formatting of a \<open>ZodError\<close> that the three resolvers share:
  \<open>error.errors.map(err => `${err.path.join('.')}: ${err.message}`).join('; ')\<close>.
\<close>

definition formatIssue :: "ZodIssue \<Rightarrow> string" where
  "formatIssue err = js_join ''.'' (issue_path err) @ '': '' @ issue_message err"

definition formattedErrors :: "ZodIssue list \<Rightarrow> string" where
  "formattedErrors errors = js_join ''; '' (map formatIssue errors)"

section \<open>The greeting tool (\<open>saludo\<close>)\<close>

text \<open>\<open>GreetingInputSchema\<close> of the greeting resolver.\<close>

definition greeting_formal_preprocess :: "json \<Rightarrow> json" where
  "greeting_formal_preprocess val =
     (case val of JStr s \<Rightarrow> JBool (toLowerCase s = ''true'') | _ \<Rightarrow> val)"

definition msg_nombre_vacio :: string where
  "msg_nombre_vacio = ''El nombre no puede estar vac'' @ [i_acute] @ ''o''"

definition msg_nombre_largo :: string where
  "msg_nombre_largo = ''El nombre es demasiado largo''"

definition GreetingInputSchema :: ZodType where
  "GreetingInputSchema =
     ZodObject
       [(''nombre'', ZodString [Min 1 msg_nombre_vacio, Max 100 msg_nombre_largo]),
        (''formal'',
           ZodPreprocess greeting_formal_preprocess
             (ZodDefault (ZodOptional ZodBoolean) (JBool False)))]"

record GreetingInput =
  nombre :: string
  formal :: bool

text \<open>
  The part of a tool definition that the properties below are about (its description
  and the examples and descriptions of its properties are left out).
\<close>

record ToolDefinition =
  name :: string
  properties :: "string list"
  required :: "string list"
  additionalProperties :: bool

definition GREETING_TOOL_DEFINITION :: ToolDefinition where
  "GREETING_TOOL_DEFINITION =
     \<lparr>name = ''saludo'', properties = [''nombre'', ''formal''],
      required = [''nombre''], additionalProperties = False\<rparr>"

text \<open>\<open>GreetingUseCase.execute\<close>; the hour is \<open>new Date().getHours()\<close>.\<close>

definition GreetingUseCase_execute :: "runtime \<Rightarrow> GreetingInput \<Rightarrow> js_error + ToolResult" where
  "GreetingUseCase_execute rt input =
     (let tiempoActual = getHours rt;
          saludoTiempo =
            (if tiempoActual < 12 then
               (if formal input then ''Buenos d'' @ [i_acute] @ ''as''
                else [inverted_exclamation] @ ''Buenos d'' @ [i_acute] @ ''as'')
             else if tiempoActual < 18 then
               (if formal input then ''Buenas tardes''
                else [inverted_exclamation] @ ''Buenas tardes'')
             else
               (if formal input then ''Buenas noches''
                else [inverted_exclamation] @ ''Buenas noches''));
          saludo =
            (if formal input
             then saludoTiempo @ '', '' @ nombre input
                  @ ''. Es un placer saludarle. Espero que tenga un excelente d''
                  @ [i_acute] @ ''a.''
             else saludoTiempo @ '' '' @ nombre input @ ''! '' @ [inverted_question] @ ''C''
                  @ [o_acute] @ ''mo est'' @ [a_acute] @ ''s? '' @ [inverted_exclamation]
                  @ ''Espero que tengas un d'' @ [i_acute] @ ''a genial!'')
      in Inr \<lparr>content = [TextContent saludo]\<rparr>)"

text \<open>
  \<open>GreetingResolver.validateInput\<close>: the parsed object, read at the type
  \<open>GreetingInput\<close> that the schema gives it.
\<close>

definition as_GreetingInput :: "json \<Rightarrow> GreetingInput" where
  "as_GreetingInput v =
     \<lparr>nombre = the_str (js_prop v ''nombre''), formal = the_bool (js_prop v ''formal'')\<rparr>"

definition GreetingResolver_validateInput :: "json \<Rightarrow> js_error + GreetingInput" where
  "GreetingResolver_validateInput args =
     (case zod_parse GreetingInputSchema args of
        Inl err \<Rightarrow> Inl err
      | Inr v \<Rightarrow> Inr (as_GreetingInput v))"

text \<open>The \<open>catch\<close> block of \<open>GreetingResolver.resolveAndExecute\<close>: every branch throws.\<close>

definition GreetingResolver_catch :: "js_error \<Rightarrow> js_error" where
  "GreetingResolver_catch error =
     (case error of
        ZodError errors \<Rightarrow>
          McpError InvalidParams
            (''Errores de validaci'' @ [o_acute] @ ''n en herramienta 'saludo': ''
             @ formattedErrors errors)
      | McpError code msg \<Rightarrow> McpError code msg
      | Error msg \<Rightarrow>
          McpError InternalError (''Error interno en herramienta 'saludo': '' @ msg))"

definition GreetingResolver_resolveAndExecute :: "runtime \<Rightarrow> json \<Rightarrow> ToolResult traced" where
  "GreetingResolver_resolveAndExecute rt args =
     (case GreetingResolver_validateInput args of
        Inl error \<Rightarrow> ([], Inl (GreetingResolver_catch error))
      | Inr validatedInput \<Rightarrow>
          ([UseCaseCall ''saludo''],
           (case GreetingUseCase_execute rt validatedInput of
              Inl error \<Rightarrow> Inl (GreetingResolver_catch error)
            | Inr result \<Rightarrow> Inr result)))"

section \<open>The calculator tool (\<open>calcular\<close>)\<close>

text \<open>\<open>CalculatorInputSchema\<close>: the object schema and its refinement on \<open>operacion\<close> and \<open>b\<close>.\<close>

fun js_strict_equals_zero :: "json \<Rightarrow> bool" where
  "js_strict_equals_zero (JNum x) = js_is_zero x"
| "js_strict_equals_zero _ = False"

definition calculator_refinement :: "json \<Rightarrow> bool" where
  "calculator_refinement data =
     (if js_prop data ''operacion'' = JStr ''division'' \<and> js_strict_equals_zero (js_prop data ''b'')
      then False else True)"

text \<open>The messages that the schema gives to its checks.\<close>

definition msg_operacion :: string where
  "msg_operacion =
     ''La operaci'' @ [o_acute] @ ''n debe ser una de: suma, resta, multiplicacion, division''"

definition msg_primer_numero :: string where
  "msg_primer_numero =
     ''El primer n'' @ [u_acute] @ ''mero debe ser un n'' @ [u_acute] @ ''mero v'' @ [a_acute]
     @ ''lido''"

definition msg_segundo_numero :: string where
  "msg_segundo_numero =
     ''El segundo n'' @ [u_acute] @ ''mero debe ser un n'' @ [u_acute] @ ''mero v'' @ [a_acute]
     @ ''lido''"

definition msg_dividir_por_cero :: string where
  "msg_dividir_por_cero = ''No se puede dividir por cero''"

definition CalculatorObjectSchema :: ZodType where
  "CalculatorObjectSchema =
     ZodObject
       [(''operacion'',
           ZodEnum [''suma'', ''resta'', ''multiplicacion'', ''division''] msg_operacion),
        (''a'', ZodNumber [Finite msg_primer_numero]),
        (''b'', ZodNumber [Finite msg_segundo_numero])]"

definition CalculatorInputSchema :: ZodType where
  "CalculatorInputSchema =
     ZodRefine CalculatorObjectSchema calculator_refinement msg_dividir_por_cero [''b'']"

text \<open>
  The validated input: \<open>op_a\<close> and \<open>op_b\<close> are the fields \<open>a\<close> and \<open>b\<close> of the source.
\<close>

record CalculatorInput =
  operacion :: string
  op_a :: jsnum
  op_b :: jsnum

definition CALCULATOR_TOOL_DEFINITION :: ToolDefinition where
  "CALCULATOR_TOOL_DEFINITION =
     \<lparr>name = ''calcular'', properties = [''operacion'', ''a'', ''b''],
      required = [''operacion'', ''a'', ''b''], additionalProperties = False\<rparr>"

text \<open>The constant \<open>resultadoFormateado\<close> of \<open>CalculatorUseCase.execute\<close>.\<close>

definition resultadoFormateado :: "runtime \<Rightarrow> jsnum \<Rightarrow> string" where
  "resultadoFormateado rt resultado =
     (if Number_isInteger resultado then Number_toString rt resultado
      else replace_point_zeros (Number_toFixed rt resultado 6))"

text \<open>
  The \<open>switch\<close> of \<open>CalculatorUseCase.execute\<close>: the result, the symbol and the
  description of the operation, or the error of the default branch.
\<close>

definition calculator_switch :: "CalculatorInput \<Rightarrow> js_error + (jsnum \<times> string \<times> string)" where
  "calculator_switch input =
     (if operacion input = ''suma'' then Inr (js_add (op_a input) (op_b input), ''+'', ''Suma'')
      else if operacion input = ''resta'' then Inr (js_sub (op_a input) (op_b input), ''-'', ''Resta'')
      else if operacion input = ''multiplicacion''
        then Inr (js_mul (op_a input) (op_b input), [multiplication_sign],
                  ''Multiplicaci'' @ [o_acute] @ ''n'')
      else if operacion input = ''division''
        then Inr (js_div (op_a input) (op_b input), [division_sign], ''Divisi'' @ [o_acute] @ ''n'')
      else Inl (Error (''Operaci'' @ [o_acute] @ ''n no v'' @ [a_acute] @ ''lida'')))"

definition CalculatorUseCase_execute :: "runtime \<Rightarrow> CalculatorInput \<Rightarrow> js_error + ToolResult" where
  "CalculatorUseCase_execute rt input =
     (case calculator_switch input of
        Inl error \<Rightarrow> Inl error
      | Inr (resultado, simbolo, descripcion) \<Rightarrow>
          Inr \<lparr>content =
                 [TextContent
                    (descripcion @ '': '' @ Number_toString rt (op_a input) @ '' '' @ simbolo @ '' ''
                     @ Number_toString rt (op_b input) @ '' = '' @ resultadoFormateado rt resultado)]\<rparr>)"

definition as_CalculatorInput :: "json \<Rightarrow> CalculatorInput" where
  "as_CalculatorInput v =
     \<lparr>operacion = the_str (js_prop v ''operacion''),
      op_a = the_num (js_prop v ''a''), op_b = the_num (js_prop v ''b'')\<rparr>"

definition CalculatorResolver_validateInput :: "json \<Rightarrow> js_error + CalculatorInput" where
  "CalculatorResolver_validateInput args =
     (case zod_parse CalculatorInputSchema args of
        Inl err \<Rightarrow> Inl err
      | Inr v \<Rightarrow> Inr (as_CalculatorInput v))"

definition CalculatorResolver_catch :: "js_error \<Rightarrow> js_error" where
  "CalculatorResolver_catch error =
     (case error of
        ZodError errors \<Rightarrow>
          McpError InvalidParams
            (''Errores de validaci'' @ [o_acute] @ ''n en herramienta 'calcular': ''
             @ formattedErrors errors)
      | McpError code msg \<Rightarrow> McpError code msg
      | Error msg \<Rightarrow>
          McpError InternalError (''Error interno en herramienta 'calcular': '' @ msg))"

definition CalculatorResolver_resolveAndExecute :: "runtime \<Rightarrow> json \<Rightarrow> ToolResult traced" where
  "CalculatorResolver_resolveAndExecute rt args =
     (case CalculatorResolver_validateInput args of
        Inl error \<Rightarrow> ([], Inl (CalculatorResolver_catch error))
      | Inr validatedInput \<Rightarrow>
          ([UseCaseCall ''calcular''],
           (case CalculatorUseCase_execute rt validatedInput of
              Inl error \<Rightarrow> Inl (CalculatorResolver_catch error)
            | Inr result \<Rightarrow> Inr result)))"

section \<open>The date and time tool (\<open>fecha_actual\<close>)\<close>

definition msg_formato :: string where
  "msg_formato = ''El formato debe ser uno de: corto, largo, hora, completo, iso''"

definition DateTimeInputSchema :: ZodType where
  "DateTimeInputSchema =
     ZodObject
       [(''formato'',
           ZodDefault
             (ZodOptional
                (ZodEnum [''corto'', ''largo'', ''hora'', ''completo'', ''iso''] msg_formato))
             (JStr ''largo'')),
        (''zona_horaria'',
           ZodDefault (ZodOptional (ZodString [])) (JStr ''Europe/Madrid''))]"

record DateTimeInput =
  formato :: string
  zona_horaria :: string

definition DATETIME_TOOL_DEFINITION :: ToolDefinition where
  "DATETIME_TOOL_DEFINITION =
     \<lparr>name = ''fecha_actual'', properties = [''formato'', ''zona_horaria''],
      required = [], additionalProperties = False\<rparr>"

text \<open>
  \<open>ahora.toLocaleDateString\<close>, \<open>toLocaleTimeString\<close> and \<open>toLocaleString\<close> with a
  \<open>timeZone\<close> option: a \<open>RangeError\<close> when the runtime does not know the time zone, the
  formatted text otherwise.
\<close>

definition toLocale :: "runtime \<Rightarrow> date_style \<Rightarrow> string \<Rightarrow> js_error + string" where
  "toLocale rt style timeZone =
     (if validTimeZone rt timeZone then Inr (toLocaleString rt style timeZone)
      else Inl (Error (invalidTimeZoneMessage rt timeZone)))"

text \<open>The \<open>switch\<close> of \<open>DateTimeUseCase.execute\<close>, which computes \<open>fechaFormateada\<close>.\<close>

definition fechaFormateada :: "runtime \<Rightarrow> DateTimeInput \<Rightarrow> js_error + string" where
  "fechaFormateada rt input =
     (if formato input = ''corto'' then toLocale rt CortoOptions (zona_horaria input)
      else if formato input = ''hora'' then toLocale rt HoraOptions (zona_horaria input)
      else if formato input = ''completo'' then toLocale rt CompletoOptions (zona_horaria input)
      else if formato input = ''iso'' then Inr (toISOString rt)
      else toLocale rt LargoOptions (zona_horaria input))"

text \<open>\<open>DateTimeUseCase.execute\<close>: the body of its \<open>try\<close> and its \<open>catch\<close>.\<close>

definition DateTimeUseCase_execute :: "runtime \<Rightarrow> DateTimeInput \<Rightarrow> js_error + ToolResult" where
  "DateTimeUseCase_execute rt input =
     (case fechaFormateada rt input of
        Inr fecha \<Rightarrow>
          (let zonaInfo =
                 (if zona_horaria input \<noteq> ''Europe/Madrid''
                  then '' (Zona horaria: '' @ zona_horaria input @ '')'' else [])
           in Inr \<lparr>content = [TextContent (''La fecha actual es: '' @ fecha @ zonaInfo)]\<rparr>)
      | Inl error \<Rightarrow>
          Inl (Error (''Error al formatear la fecha: ''
                      @ (case error of Error msg \<Rightarrow> msg
                         | McpError code msg \<Rightarrow> msg
                         | ZodError errors \<Rightarrow> formattedErrors errors))))"

definition as_DateTimeInput :: "json \<Rightarrow> DateTimeInput" where
  "as_DateTimeInput v =
     \<lparr>formato = the_str (js_prop v ''formato''),
      zona_horaria = the_str (js_prop v ''zona_horaria'')\<rparr>"

definition DateTimeResolver_validateInput :: "json \<Rightarrow> js_error + DateTimeInput" where
  "DateTimeResolver_validateInput args =
     (case zod_parse DateTimeInputSchema args of
        Inl err \<Rightarrow> Inl err
      | Inr v \<Rightarrow> Inr (as_DateTimeInput v))"

definition DateTimeResolver_catch :: "js_error \<Rightarrow> js_error" where
  "DateTimeResolver_catch error =
     (case error of
        ZodError errors \<Rightarrow>
          McpError InvalidParams
            (''Errores de validaci'' @ [o_acute] @ ''n en herramienta 'fecha_actual': ''
             @ formattedErrors errors)
      | McpError code msg \<Rightarrow> McpError code msg
      | Error msg \<Rightarrow>
          McpError InternalError (''Error interno en herramienta 'fecha_actual': '' @ msg))"

definition DateTimeResolver_resolveAndExecute :: "runtime \<Rightarrow> json \<Rightarrow> ToolResult traced" where
  "DateTimeResolver_resolveAndExecute rt args =
     (case DateTimeResolver_validateInput args of
        Inl error \<Rightarrow> ([], Inl (DateTimeResolver_catch error))
      | Inr validatedInput \<Rightarrow>
          ([UseCaseCall ''fecha_actual''],
           (case DateTimeUseCase_execute rt validatedInput of
              Inl error \<Rightarrow> Inl (DateTimeResolver_catch error)
            | Inr result \<Rightarrow> Inr result)))"

section \<open>The dispatcher (\<open>ToolResolver\<close>)\<close>

definition ToolResolver_getToolDefinitions :: "ToolDefinition list" where
  "ToolResolver_getToolDefinitions =
     [GREETING_TOOL_DEFINITION, CALCULATOR_TOOL_DEFINITION, DATETIME_TOOL_DEFINITION]"

text \<open>The \<open>catch\<close> block of \<open>ToolResolver.resolveAndExecute\<close>.\<close>

definition ToolResolver_catch :: "string \<Rightarrow> js_error \<Rightarrow> js_error" where
  "ToolResolver_catch toolName error =
     (case error of
        McpError code msg \<Rightarrow> McpError code msg
      | Error msg \<Rightarrow>
          McpError InternalError
            (''Error interno en herramienta '' @ [apostrophe] @ toolName @ [apostrophe]
             @ '': '' @ msg)
      | ZodError errors \<Rightarrow>
          McpError InternalError
            (''Error interno en herramienta '' @ [apostrophe] @ toolName @ [apostrophe]
             @ '': '' @ formattedErrors errors))"

definition delegate :: "string \<Rightarrow> ToolResult traced \<Rightarrow> ToolResult traced" where
  "delegate toolName r =
     (ResolverCall toolName # fst r,
      (case snd r of Inl error \<Rightarrow> Inl (ToolResolver_catch toolName error)
       | Inr result \<Rightarrow> Inr result))"

definition ToolResolver_resolveAndExecute :: "runtime \<Rightarrow> string \<Rightarrow> json \<Rightarrow> ToolResult traced" where
  "ToolResolver_resolveAndExecute rt toolName args =
     (if toolName = ''saludo''
        then delegate toolName (GreetingResolver_resolveAndExecute rt args)
      else if toolName = ''calcular''
        then delegate toolName (CalculatorResolver_resolveAndExecute rt args)
      else if toolName = ''fecha_actual''
        then delegate toolName (DateTimeResolver_resolveAndExecute rt args)
      else
        ([], Inl (ToolResolver_catch toolName
                    (McpError MethodNotFound
                       (''Herramienta desconocida: '' @ toolName
                        @ ''. Herramientas disponibles: saludo, calcular, fecha_actual'')))))"

text \<open>The names under which the dispatcher advertises its tools.\<close>

definition registered_names :: "string list" where
  "registered_names = map name ToolResolver_getToolDefinitions"

section \<open>A runtime for the examples\<close>

text \<open>
  A fixed runtime, used where a property is shown at a concrete input: ten o'clock, four
  known time zones, and texts of the kind that \<open>Intl\<close> gives.
\<close>

definition example_runtime :: runtime where
  "example_runtime =
     \<lparr>getHours = 10, toISOString = ''2024-01-15T09:30:00.000Z'',
      validTimeZone =
        (\<lambda>tz. tz \<in> set [''Europe/Madrid'', ''UTC'', ''America/New_York'', ''Asia/Tokyo'']),
      invalidTimeZoneMessage = (\<lambda>tz. ''Invalid time zone specified: '' @ tz),
      toLocaleString = (\<lambda>style tz. ''15/1/2024''),
      shortestDigits = (\<lambda>r. ''?'')\<rparr>"

section \<open>The specification of the validation\<close>

text \<open>
  What follows is written from the specification of the validation, field by field, and
  not from the validators: which values violate the constraint of a field and with which
  message, the list of the violations of an input, and the text that reports them. The
  properties below compare the resolvers with it.
\<close>

text \<open>
  A string equals \<open>true\<close> when case is ignored.
\<close>

definition true_ignoring_case :: "string \<Rightarrow> bool" where
  "true_ignoring_case s =
     (\<exists>c1 c2 c3 c4. s = [c1, c2, c3, c4]
        \<and> c1 \<in> {CHR ''t'', CHR ''T''} \<and> c2 \<in> {CHR ''r'', CHR ''R''}
        \<and> c3 \<in> {CHR ''u'', CHR ''U''} \<and> c4 \<in> {CHR ''e'', CHR ''E''})"

text \<open>
  A number field: the value must be a number (NaN is none) and finite.
\<close>

definition is_number :: "json \<Rightarrow> bool" where
  "is_number v = (case v of JNum x \<Rightarrow> x \<noteq> NaN | _ \<Rightarrow> False)"

definition number_violation :: "string \<Rightarrow> json \<Rightarrow> string option" where
  "number_violation not_finite v =
     (case v of
        JNum x \<Rightarrow>
          (if x = NaN then Some ''Expected number, received nan''
           else if x = PosInf \<or> x = NegInf then Some not_finite else None)
      | JUndefined \<Rightarrow> Some ''Required''
      | _ \<Rightarrow> Some (''Expected number, received '' @ getParsedType v))"

text \<open>
  An enumeration field: the value must be one of the strings.
\<close>

definition enum_violation :: "string list \<Rightarrow> string \<Rightarrow> json \<Rightarrow> string option" where
  "enum_violation values msg v = (if v \<in> JStr ` set values then None else Some msg)"

text \<open>
  A string field without further constraint.
\<close>

definition string_type_violation :: "json \<Rightarrow> string option" where
  "string_type_violation v =
     (case v of
        JStr s \<Rightarrow> None
      | JUndefined \<Rightarrow> Some ''Required''
      | _ \<Rightarrow> Some (''Expected string, received '' @ getParsedType v))"

text \<open>
  The violations of the fields of an input, in the order of the fields, each with the
  name of its field.
\<close>

definition field_violations :: "(string \<Rightarrow> json \<Rightarrow> string option) \<Rightarrow> string list \<Rightarrow> (string \<times> json) list \<Rightarrow> (string \<times> string) list" where
  "field_violations violation fs kvs =
     concat (map (\<lambda>f. case violation f (js_get kvs f) of None \<Rightarrow> [] | Some m \<Rightarrow> [(f, m)]) fs)"

text \<open>
  The calculator: \<open>operacion\<close> is one of the four operations, \<open>a\<close> and \<open>b\<close> are finite
  numbers. The rule on two fields (no division by zero) is looked at only when no field
  is of the wrong type.
\<close>

definition calculator_field_violation :: "string \<Rightarrow> json \<Rightarrow> string option" where
  "calculator_field_violation f v =
     (if f = ''operacion''
        then enum_violation [''suma'', ''resta'', ''multiplicacion'', ''division''] msg_operacion v
      else if f = ''a'' then number_violation msg_primer_numero v
      else if f = ''b'' then number_violation msg_segundo_numero v
      else None)"

definition calculator_ill_typed :: "(string \<times> json) list \<Rightarrow> bool" where
  "calculator_ill_typed kvs =
     (js_get kvs ''operacion'' \<notin> JStr ` set [''suma'', ''resta'', ''multiplicacion'', ''division'']
      \<or> \<not> is_number (js_get kvs ''a'') \<or> \<not> is_number (js_get kvs ''b''))"

definition division_by_zero :: "(string \<times> json) list \<Rightarrow> bool" where
  "division_by_zero kvs =
     (js_get kvs ''operacion'' = JStr ''division''
      \<and> (js_get kvs ''b'' = JNum (Fin 0) \<or> js_get kvs ''b'' = JNum NegZero))"

definition calculator_violations :: "(string \<times> json) list \<Rightarrow> (string \<times> string) list" where
  "calculator_violations kvs =
     field_violations calculator_field_violation [''operacion'', ''a'', ''b''] kvs
     @ (if \<not> calculator_ill_typed kvs \<and> division_by_zero kvs
        then [(''b'', msg_dividir_por_cero)] else [])"

text \<open>
  The greeting: \<open>nombre\<close> is a string of 1 to 100 characters; \<open>formal\<close> is absent, a
  boolean or a string. The value of \<open>formal\<close> after validation: the boolean itself, for
  a string whether it is \<open>true\<close> when case is ignored, \<open>false\<close> when absent.
\<close>

definition greeting_field_violation :: "string \<Rightarrow> json \<Rightarrow> string option" where
  "greeting_field_violation f v =
     (if f = ''nombre'' then
        (case v of
           JStr s \<Rightarrow>
             (if length s < 1 then Some msg_nombre_vacio
              else if 100 < length s then Some msg_nombre_largo else None)
         | _ \<Rightarrow> string_type_violation v)
      else if f = ''formal'' then
        (case v of
           JUndefined \<Rightarrow> None
         | JBool x \<Rightarrow> None
         | JStr s \<Rightarrow> None
         | _ \<Rightarrow> Some (''Expected boolean, received '' @ getParsedType v))
      else None)"

definition greeting_violations :: "(string \<times> json) list \<Rightarrow> (string \<times> string) list" where
  "greeting_violations kvs =
     field_violations greeting_field_violation [''nombre'', ''formal''] kvs"

definition formal_value :: "json \<Rightarrow> bool" where
  "formal_value v =
     (case v of JBool x \<Rightarrow> x | JStr s \<Rightarrow> true_ignoring_case s | _ \<Rightarrow> False)"

text \<open>
  The date and time: \<open>formato\<close> is absent or one of the five formats, \<open>zona_horaria\<close> is
  absent or a string; an absent field takes its default.
\<close>

definition datetime_field_violation :: "string \<Rightarrow> json \<Rightarrow> string option" where
  "datetime_field_violation f v =
     (if f = ''formato'' then
        (if v = JUndefined then None
         else enum_violation [''corto'', ''largo'', ''hora'', ''completo'', ''iso''] msg_formato v)
      else if f = ''zona_horaria'' then
        (if v = JUndefined then None else string_type_violation v)
      else None)"

definition datetime_violations :: "(string \<times> json) list \<Rightarrow> (string \<times> string) list" where
  "datetime_violations kvs =
     field_violations datetime_field_violation [''formato'', ''zona_horaria''] kvs"

definition or_default :: "json \<Rightarrow> json \<Rightarrow> json" where
  "or_default v d = (if v = JUndefined then d else v)"

text \<open>
  The report of a list of violations: after the prefix that names the tool, the pairs
  \<open>field: message\<close>, joined by \<open>; \<close>.
\<close>

definition issue_of :: "string \<times> string \<Rightarrow> ZodIssue" where
  "issue_of fm = ZodIssue [fst fm] (snd fm)"

definition report :: "string \<Rightarrow> (string \<times> string) list \<Rightarrow> string" where
  "report pre violations =
     pre @ js_join ''; '' (map (\<lambda>fm. fst fm @ '': '' @ snd fm) violations)"

definition validation_prefix :: "string \<Rightarrow> string" where
  "validation_prefix tool =
     ''Errores de validaci'' @ [o_acute] @ ''n en herramienta '' @ [apostrophe] @ tool
     @ [apostrophe] @ '': ''"

text \<open>
  The properties of an input that the tool definition declares.
\<close>

definition declared_only :: "ToolDefinition \<Rightarrow> (string \<times> json) list \<Rightarrow> (string \<times> json) list" where
  "declared_only d kvs = filter (\<lambda>kv. fst kv \<in> set (properties d)) kvs"

text \<open>
  The two phrasings of a greeting, for a salutation and a name.
\<close>

definition buenos_dias :: string where
  "buenos_dias = ''Buenos d'' @ [i_acute] @ ''as''"

definition saludo_formal :: "string \<Rightarrow> string \<Rightarrow> string" where
  "saludo_formal saludoTiempo n =
     saludoTiempo @ '', '' @ n @ ''. Es un placer saludarle. Espero que tenga un excelente d''
     @ [i_acute] @ ''a.''"

definition saludo_informal :: "string \<Rightarrow> string \<Rightarrow> string" where
  "saludo_informal saludoTiempo n =
     [inverted_exclamation] @ saludoTiempo @ '' '' @ n @ ''! '' @ [inverted_question] @ ''C''
     @ [o_acute] @ ''mo est'' @ [a_acute] @ ''s? '' @ [inverted_exclamation]
     @ ''Espero que tengas un d'' @ [i_acute] @ ''a genial!''"

definition band_text :: "bool \<Rightarrow> string \<Rightarrow> string \<Rightarrow> string" where
  "band_text is_formal saludoTiempo n =
     (if is_formal then saludo_formal saludoTiempo n else saludo_informal saludoTiempo n)"

text \<open>
  The fields of a validated input of the date and time tool, read from the arguments:
  the value given, or the default of the field.
\<close>

definition validated_formato :: "(string \<times> json) list \<Rightarrow> string" where
  "validated_formato kvs = the_str (or_default (js_get kvs ''formato'') (JStr ''largo''))"

definition validated_zona_horaria :: "(string \<times> json) list \<Rightarrow> string" where
  "validated_zona_horaria kvs =
     the_str (or_default (js_get kvs ''zona_horaria'') (JStr ''Europe/Madrid''))"

text \<open>
  The text of a number, as the specification of the calculator words it. An integer is
  written with its sign and the decimal digits of its magnitude. Any other number is
  written with six decimals, the nearest to its magnitude (the larger of two that are as
  near), without the zeros that end them, and without the point when no decimal is left.
\<close>

fun last_digits :: "nat \<Rightarrow> nat \<Rightarrow> string" where
  "last_digits 0 n = []"
| "last_digits (Suc k) n = last_digits k (n div 10) @ [char_of (48 + n mod 10)]"






section \<open>Properties of the validation\<close>

subsection \<open>The validators of the fields\<close>

lemma getParsedType_undefined [simp]: "getParsedType v = ''undefined'' \<longleftrightarrow> v = JUndefined"
proof (cases v)
  case (JNum x)
  then show ?thesis by (cases x) simp_all
qed simp_all

lemma getParsedType_JNum: "getParsedType (JNum x) = (if x = NaN then ''nan'' else ''number'')"
  by (cases x) simp_all

lemma Number_isFinite_iff: "Number_isFinite x \<longleftrightarrow> x \<noteq> PosInf \<and> x \<noteq> NegInf \<and> x \<noteq> NaN"
  by (cases x) simp_all

lemma ZodNumber_Finite:
  "ZodNumber [Finite M] p v =
     (case number_violation M v of
        None \<Rightarrow> (OK v, [])
      | Some m \<Rightarrow> (if is_number v then DIRTY v else INVALID, [ZodIssue p m]))"
  by (cases v)
     (auto simp: ZodNumber_def number_violation_def is_number_def invalid_type_message_def
        getParsedType_JNum Number_isFinite_iff)

lemma ZodEnum_violation:
  "ZodEnum values msg p v =
     (case enum_violation values msg v of
        None \<Rightarrow> (OK v, [])
      | Some m \<Rightarrow> (INVALID, [ZodIssue p m]))"
  by (cases v) (auto simp: ZodEnum_def enum_violation_def)

lemma is_number_not_undefined: "is_number v \<Longrightarrow> v \<noteq> JUndefined"
  by (auto simp: is_number_def)

lemma number_violation_None: "number_violation M v = None \<Longrightarrow> is_number v"
  by (auto simp: number_violation_def is_number_def split: json.splits if_splits)


lemma enum_violation_Some: "enum_violation vs M v = Some m \<longleftrightarrow> v \<notin> JStr ` set vs \<and> m = M"
  by (auto simp: enum_violation_def)

lemma js_strict_equals_zero_iff:
  "js_strict_equals_zero v \<longleftrightarrow> v = JNum (Fin 0) \<or> v = JNum NegZero"
proof (cases v)
  case (JNum x)
  then show ?thesis by (cases x) auto
qed simp_all

subsection \<open>Lower case and the literal true\<close>

lemma toLowerCase_char_ascii:
  assumes "97 \<le> (of_char d :: nat)" "(of_char d :: nat) \<le> 122"
  shows "toLowerCase_char c = d \<longleftrightarrow> c = d \<or> c = char_of (of_char d - 32 :: nat)"
proof -
  have lt: "(of_char c :: nat) < 256" by simp
  show ?thesis
  proof (cases "(65 \<le> (of_char c :: nat) \<and> (of_char c :: nat) \<le> 90) \<or> (192 \<le> (of_char c :: nat) \<and> (of_char c :: nat) \<le> 222 \<and> (of_char c :: nat) \<noteq> 215)")
    case True
    then have lc: "toLowerCase_char c = char_of (of_char c + 32 :: nat)"
      by (simp add: toLowerCase_char_def)
    have "char_of (of_char c + 32 :: nat) = d \<longleftrightarrow> (of_char c + 32 :: nat) mod 256 = of_char d"
      by (simp add: char_of_eq_iff take_bit_eq_mod)
    also have "\<dots> \<longleftrightarrow> (of_char c :: nat) + 32 = of_char d"
      using True lt by auto
    also have "\<dots> \<longleftrightarrow> c = char_of (of_char d - 32 :: nat)"
    proof
      assume "(of_char c :: nat) + 32 = of_char d"
      then have "(of_char d :: nat) - 32 = of_char c" by simp
      then show "c = char_of (of_char d - 32 :: nat)" by simp
    next
      assume "c = char_of (of_char d - 32 :: nat)"
      then have "(of_char c :: nat) = of_char d - 32"
        using assms by (simp add: take_bit_eq_mod)
      then show "(of_char c :: nat) + 32 = of_char d" using assms by simp
    qed
    finally have "toLowerCase_char c = d \<longleftrightarrow> c = char_of (of_char d - 32 :: nat)"
      using lc by simp
    moreover have "c \<noteq> d" using True assms by auto
    ultimately show ?thesis by simp
  next
    case False
    then have lc: "toLowerCase_char c = c"
      by (auto simp add: toLowerCase_char_def Let_def)
    have "c \<noteq> char_of (of_char d - 32 :: nat)"
    proof
      assume "c = char_of (of_char d - 32 :: nat)"
      then have "(of_char c :: nat) = of_char d - 32" using assms by (simp add: take_bit_eq_mod)
      with False assms show False by auto
    qed
    then show ?thesis using lc by auto
  qed
qed

lemma char_of_capitals:
  "char_of (84::nat) = CHR ''T''" "char_of (82::nat) = CHR ''R''"
  "char_of (85::nat) = CHR ''U''" "char_of (69::nat) = CHR ''E''"
  by (simp_all add: char_of_eq_iff)

lemma lower_t: "toLowerCase_char c = CHR ''t'' \<longleftrightarrow> c = CHR ''t'' \<or> c = CHR ''T''"
  by (subst toLowerCase_char_ascii) (simp_all add: char_of_capitals)

lemma lower_r: "toLowerCase_char c = CHR ''r'' \<longleftrightarrow> c = CHR ''r'' \<or> c = CHR ''R''"
  by (subst toLowerCase_char_ascii) (simp_all add: char_of_capitals)

lemma lower_u: "toLowerCase_char c = CHR ''u'' \<longleftrightarrow> c = CHR ''u'' \<or> c = CHR ''U''"
  by (subst toLowerCase_char_ascii) (simp_all add: char_of_capitals)

lemma lower_e: "toLowerCase_char c = CHR ''e'' \<longleftrightarrow> c = CHR ''e'' \<or> c = CHR ''E''"
  by (subst toLowerCase_char_ascii) (simp_all add: char_of_capitals)

lemma map_eq_four:
  "map f s = [x1, x2, x3, x4]
     \<longleftrightarrow> (\<exists>c1 c2 c3 c4. s = [c1, c2, c3, c4] \<and> f c1 = x1 \<and> f c2 = x2 \<and> f c3 = x3 \<and> f c4 = x4)"
  by (auto simp: map_eq_Cons_conv)

lemma toLowerCase_true: "toLowerCase s = ''true'' \<longleftrightarrow> true_ignoring_case s"
  unfolding toLowerCase_def true_ignoring_case_def map_eq_four lower_t lower_r lower_u lower_e
  by simp

subsection \<open>The report of the issues\<close>

lemma formatIssue_issue_of: "formatIssue (issue_of fm) = fst fm @ '': '' @ snd fm"
  by (simp add: formatIssue_def issue_of_def)

lemma formattedErrors_issues:
  "formattedErrors (map issue_of vs) = js_join ''; '' (map (\<lambda>fm. fst fm @ '': '' @ snd fm) vs)"
  by (simp add: formattedErrors_def formatIssue_issue_of comp_def)

lemma sublist_prepend: "sublist x ys \<Longrightarrow> sublist x (pre @ ys)"
proof -
  assume "sublist x ys"
  then obtain ps ss where "ys = ps @ x @ ss" by (auto simp: sublist_def)
  then have "pre @ ys = (pre @ ps) @ x @ ss" by simp
  then show ?thesis unfolding sublist_def by blast
qed

lemma sublist_js_join:
  "x \<in> set xs \<Longrightarrow> sublist x (js_join sep xs)"
proof (induction sep xs rule: js_join.induct)
  case (3 sep x' y ys)
  show ?case
  proof (cases "x = x'")
    case True
    then show ?thesis by simp
  next
    case False
    with 3 have "sublist x (js_join sep (y # ys))" by simp
    then have "sublist x ((x' @ sep) @ js_join sep (y # ys))" by (rule sublist_prepend)
    then show ?thesis by simp
  qed
qed simp_all

lemma sublist_report:
  assumes "(f, m) \<in> set vs"
  shows "sublist (f @ '': '' @ m) (report pre vs)"
proof -
  have "f @ '': '' @ m \<in> set (map (\<lambda>fm. fst fm @ '': '' @ snd fm) vs)"
    using assms by force
  then have "sublist (f @ '': '' @ m) (js_join ''; '' (map (\<lambda>fm. fst fm @ '': '' @ snd fm) vs))"
    by (rule sublist_js_join)
  then show ?thesis
    unfolding report_def by (rule sublist_prepend)
qed

subsection \<open>The calculator schema\<close>

lemma CalculatorObjectSchema_obj:
  "CalculatorObjectSchema [] (JObj kvs) =
     (if calculator_ill_typed kvs then INVALID
      else if field_violations calculator_field_violation [''operacion'', ''a'', ''b''] kvs = []
        then OK (JObj [(''operacion'', js_get kvs ''operacion''), (''a'', js_get kvs ''a''), (''b'', js_get kvs ''b'')])
      else DIRTY (JObj [(''operacion'', js_get kvs ''operacion''), (''a'', js_get kvs ''a''), (''b'', js_get kvs ''b'')]),
      map issue_of (field_violations calculator_field_violation [''operacion'', ''a'', ''b''] kvs))"
proof -
  let ?va = "number_violation msg_primer_numero (js_get kvs ''a'')"
  let ?vb = "number_violation msg_segundo_numero (js_get kvs ''b'')"
  show ?thesis
    using number_violation_None[of msg_primer_numero "js_get kvs ''a''"]
      number_violation_None[of msg_segundo_numero "js_get kvs ''b''"]
    by (cases ?va; cases ?vb)
       (auto simp: CalculatorObjectSchema_def ZodObject_def ZodNumber_Finite ZodEnum_violation
         calculator_ill_typed_def field_violations_def calculator_field_violation_def issue_of_def
         enum_violation_def dest: is_number_not_undefined)
qed

lemma ill_typed_has_violation:
  assumes "calculator_ill_typed kvs"
  shows "field_violations calculator_field_violation [''operacion'', ''a'', ''b''] kvs \<noteq> []"
proof -
  have "enum_violation [''suma'', ''resta'', ''multiplicacion'', ''division''] msg_operacion
          (js_get kvs ''operacion'') \<noteq> None
        \<or> number_violation msg_primer_numero (js_get kvs ''a'') \<noteq> None
        \<or> number_violation msg_segundo_numero (js_get kvs ''b'') \<noteq> None"
    using assms number_violation_None[of msg_primer_numero "js_get kvs ''a''"]
      number_violation_None[of msg_segundo_numero "js_get kvs ''b''"]
    unfolding calculator_ill_typed_def enum_violation_def by fastforce
  then show ?thesis
    by (auto simp: field_violations_def calculator_field_violation_def)
qed

lemma calculator_refinement_obj:
  "calculator_refinement (JObj [(''operacion'', js_get kvs ''operacion''), (''a'', js_get kvs ''a''),
                                (''b'', js_get kvs ''b'')])
     \<longleftrightarrow> \<not> division_by_zero kvs"
  by (simp add: calculator_refinement_def division_by_zero_def js_strict_equals_zero_iff
      js_get_def[of "[(''operacion'', _), _, _]"])

lemma calculator_schema:
  "CalculatorInputSchema [] (JObj kvs) =
     (if calculator_ill_typed kvs then INVALID
      else if calculator_violations kvs = []
        then OK (JObj [(''operacion'', js_get kvs ''operacion''), (''a'', js_get kvs ''a''),
                       (''b'', js_get kvs ''b'')])
      else DIRTY (JObj [(''operacion'', js_get kvs ''operacion''), (''a'', js_get kvs ''a''),
                        (''b'', js_get kvs ''b'')]),
      map issue_of (calculator_violations kvs))"
  unfolding CalculatorInputSchema_def ZodRefine_def CalculatorObjectSchema_obj
  by (simp add: calculator_refinement_obj calculator_violations_def issue_of_def)

lemma calculator_parse:
  "zod_parse CalculatorInputSchema (JObj kvs) =
     (if calculator_violations kvs = []
      then Inr (JObj [(''operacion'', js_get kvs ''operacion''), (''a'', js_get kvs ''a''),
                      (''b'', js_get kvs ''b'')])
      else Inl (ZodError (map issue_of (calculator_violations kvs))))"
  using ill_typed_has_violation[of kvs]
  by (simp add: zod_parse_def calculator_schema calculator_violations_def)

lemma calculator_resolver_invalid:
  assumes "calculator_violations kvs \<noteq> []"
  shows "CalculatorResolver_resolveAndExecute rt (JObj kvs)
           = ([], Inl (McpError InvalidParams
                (report (validation_prefix ''calcular'') (calculator_violations kvs))))"
  using assms
  by (simp add: CalculatorResolver_resolveAndExecute_def CalculatorResolver_validateInput_def
      calculator_parse CalculatorResolver_catch_def formattedErrors_issues report_def
      validation_prefix_def)

subsection \<open>The greeting schema\<close>

lemma greeting_formal_field:
  "ZodPreprocess greeting_formal_preprocess (ZodDefault (ZodOptional ZodBoolean) (JBool False)) p v =
     (case greeting_field_violation ''formal'' v of
        None \<Rightarrow> (OK (JBool (formal_value v)), [])
      | Some m \<Rightarrow> (INVALID, [ZodIssue p m]))"
  by (cases v)
     (simp_all add: ZodPreprocess_def ZodDefault_def ZodOptional_def ZodBoolean_def
       greeting_formal_preprocess_def invalid_type_message_def greeting_field_violation_def
       formal_value_def toLowerCase_true)

lemma greeting_nombre_field:
  "ZodString [Min 1 msg_nombre_vacio, Max 100 msg_nombre_largo] p v =
     (case greeting_field_violation ''nombre'' v of
        None \<Rightarrow> (OK v, [])
      | Some m \<Rightarrow> (if (\<exists>s. v = JStr s) then DIRTY v else INVALID, [ZodIssue p m]))"
  by (cases v)
     (auto simp: ZodString_def greeting_field_violation_def string_type_violation_def
       invalid_type_message_def)

lemma greeting_nombre_None:
  "greeting_field_violation ''nombre'' v = None \<Longrightarrow> \<exists>s. v = JStr s"
  by (cases v) (auto simp: greeting_field_violation_def string_type_violation_def)

lemma greeting_parse:
  "zod_parse GreetingInputSchema (JObj kvs) =
     (if greeting_violations kvs = []
      then Inr (JObj [(''nombre'', js_get kvs ''nombre''),
                      (''formal'', JBool (formal_value (js_get kvs ''formal'')))])
      else Inl (ZodError (map issue_of (greeting_violations kvs))))"
proof -
  let ?vn = "greeting_field_violation ''nombre'' (js_get kvs ''nombre'')"
  let ?vf = "greeting_field_violation ''formal'' (js_get kvs ''formal'')"
  show ?thesis
    unfolding zod_parse_def GreetingInputSchema_def ZodObject_def greeting_formal_field
      greeting_nombre_field
    using greeting_nombre_None[of "js_get kvs ''nombre''"]
    by (cases ?vn; cases ?vf)
       (auto simp: greeting_violations_def field_violations_def issue_of_def)
qed

lemma greeting_resolver_invalid:
  assumes "greeting_violations kvs \<noteq> []"
  shows "GreetingResolver_resolveAndExecute rt (JObj kvs)
           = ([], Inl (McpError InvalidParams
                (report (validation_prefix ''saludo'') (greeting_violations kvs))))"
  using assms
  by (simp add: GreetingResolver_resolveAndExecute_def GreetingResolver_validateInput_def
      greeting_parse GreetingResolver_catch_def formattedErrors_issues report_def
      validation_prefix_def)

subsection \<open>The date and time schema\<close>

lemma datetime_formato_field:
  "ZodDefault (ZodOptional (ZodEnum [''corto'', ''largo'', ''hora'', ''completo'', ''iso''] msg_formato))
     (JStr ''largo'') p v =
     (case datetime_field_violation ''formato'' v of
        None \<Rightarrow> (OK (or_default v (JStr ''largo'')), [])
      | Some m \<Rightarrow> (INVALID, [ZodIssue p m]))"
  by (cases v)
     (auto simp: ZodDefault_def ZodOptional_def ZodEnum_def datetime_field_violation_def
       enum_violation_def or_default_def)

lemma datetime_zona_field:
  "ZodDefault (ZodOptional (ZodString [])) (JStr ''Europe/Madrid'') p v =
     (case datetime_field_violation ''zona_horaria'' v of
        None \<Rightarrow> (OK (or_default v (JStr ''Europe/Madrid'')), [])
      | Some m \<Rightarrow> (INVALID, [ZodIssue p m]))"
  by (cases v)
     (auto simp: ZodDefault_def ZodOptional_def ZodString_def datetime_field_violation_def
       string_type_violation_def or_default_def invalid_type_message_def)

lemma datetime_parse:
  "zod_parse DateTimeInputSchema (JObj kvs) =
     (if datetime_violations kvs = []
      then Inr (JObj [(''formato'', or_default (js_get kvs ''formato'') (JStr ''largo'')),
                      (''zona_horaria'', or_default (js_get kvs ''zona_horaria'') (JStr ''Europe/Madrid''))])
      else Inl (ZodError (map issue_of (datetime_violations kvs))))"
proof -
  let ?vn = "datetime_field_violation ''formato'' (js_get kvs ''formato'')"
  let ?vf = "datetime_field_violation ''zona_horaria'' (js_get kvs ''zona_horaria'')"
  show ?thesis
    by (cases ?vn; cases ?vf)
       (auto simp: zod_parse_def DateTimeInputSchema_def ZodObject_def datetime_formato_field
         datetime_zona_field datetime_violations_def field_violations_def issue_of_def or_default_def)
qed

lemma datetime_resolver_invalid:
  assumes "datetime_violations kvs \<noteq> []"
  shows "DateTimeResolver_resolveAndExecute rt (JObj kvs)
           = ([], Inl (McpError InvalidParams
                (report (validation_prefix ''fecha_actual'') (datetime_violations kvs))))"
  using assms
  by (simp add: DateTimeResolver_resolveAndExecute_def DateTimeResolver_validateInput_def
      datetime_parse DateTimeResolver_catch_def formattedErrors_issues report_def
      validation_prefix_def)

subsection \<open>Division by zero is rejected by the validation\<close>

lemma division_by_zero_violations:
  assumes "js_get kvs ''operacion'' = JStr ''division''"
    and "js_get kvs ''a'' = JNum x" and "Number_isFinite x"
    and "js_get kvs ''b'' = JNum z" and "js_is_zero z"
  shows "calculator_violations kvs = [(''b'', msg_dividir_por_cero)]"
proof -
  from assms(3) have x: "x \<noteq> NaN" "x \<noteq> PosInf" "x \<noteq> NegInf" by auto
  from assms(5) have z: "z = Fin 0 \<or> z = NegZero" by (cases z) auto
  then have z': "z \<noteq> NaN" "z \<noteq> PosInf" "z \<noteq> NegInf" by auto
  show ?thesis
    using assms(1,2,4) x z z'
    by (auto simp: calculator_violations_def field_violations_def calculator_field_violation_def
        enum_violation_def number_violation_def calculator_ill_typed_def is_number_def
        division_by_zero_def)
qed

text \<open>
  C1. For every call of \<open>calcular\<close> whose arguments have \<open>operacion = "division"\<close>, a finite
  number \<open>a\<close> and \<open>b = 0\<close> (either zero), whatever other properties they have: the schema
  throws a \<open>ZodError\<close> with the one issue of the rule on the two fields, at the path \<open>b\<close>;
  the resolver throws an \<open>McpError\<close> with the code \<open>InvalidParams\<close> (not \<open>InternalError\<close>);
  the use case is not called: the resolver makes no call, the dispatcher only that of the
  resolver.
\<close>

theorem division_by_zero_is_invalid_arguments:
  assumes "js_get kvs ''operacion'' = JStr ''division''"
    and "js_get kvs ''a'' = JNum x" and "Number_isFinite x"
    and "js_get kvs ''b'' = JNum z" and "js_is_zero z"
  shows "zod_parse CalculatorInputSchema (JObj kvs)
           = Inl (ZodError [ZodIssue [''b''] ''No se puede dividir por cero''])
       \<and> CalculatorResolver_resolveAndExecute rt (JObj kvs)
           = ([], Inl (McpError InvalidParams
                (''Errores de validaci'' @ [o_acute]
                 @ ''n en herramienta 'calcular': b: No se puede dividir por cero'')))
       \<and> ToolResolver_resolveAndExecute rt ''calcular'' (JObj kvs)
           = ([ResolverCall ''calcular''], Inl (McpError InvalidParams
                (''Errores de validaci'' @ [o_acute]
                 @ ''n en herramienta 'calcular': b: No se puede dividir por cero'')))"
proof -
  have v: "calculator_violations kvs = [(''b'', msg_dividir_por_cero)]"
    using assms by (rule division_by_zero_violations)
  have p: "zod_parse CalculatorInputSchema (JObj kvs)
           = Inl (ZodError [ZodIssue [''b''] ''No se puede dividir por cero''])"
    by (simp add: calculator_parse v issue_of_def msg_dividir_por_cero_def)
  have r: "CalculatorResolver_resolveAndExecute rt (JObj kvs)
           = ([], Inl (McpError InvalidParams
                (''Errores de validaci'' @ [o_acute]
                 @ ''n en herramienta 'calcular': b: No se puede dividir por cero'')))"
    by (simp add: calculator_resolver_invalid v report_def validation_prefix_def
        msg_dividir_por_cero_def)
  have t: "ToolResolver_resolveAndExecute rt ''calcular'' (JObj kvs)
           = ([ResolverCall ''calcular''], Inl (McpError InvalidParams
                (''Errores de validaci'' @ [o_acute]
                 @ ''n en herramienta 'calcular': b: No se puede dividir por cero'')))"
    by (simp add: ToolResolver_resolveAndExecute_def delegate_def r ToolResolver_catch_def)
  from p r t show ?thesis by blast
qed

theorem division_by_zero_is_invalid_arguments_witness:
  "js_get [(''operacion'', JStr ''division''), (''a'', JNum (Fin 5)), (''b'', JNum (Fin 0))] ''operacion''
     = JStr ''division''
   \<and> Number_isFinite (Fin 5) \<and> js_is_zero (Fin 0)
   \<and> ToolResolver_resolveAndExecute example_runtime ''calcular''
        (JObj [(''operacion'', JStr ''division''), (''a'', JNum (Fin 5)), (''b'', JNum (Fin 0))])
       = ([ResolverCall ''calcular''], Inl (McpError InvalidParams
            (''Errores de validaci'' @ [o_acute]
             @ ''n en herramienta 'calcular': b: No se puede dividir por cero'')))"
  using division_by_zero_is_invalid_arguments
    [of "[(''operacion'', JStr ''division''), (''a'', JNum (Fin 5)), (''b'', JNum (Fin 0))]"
        "Fin 5" "Fin 0" example_runtime]
  by (simp add: js_get_def)

subsection \<open>All violations are reported\<close>

lemma field_violations_complete:
  assumes "f \<in> set fs" "violation f (js_get kvs f) = Some m"
  shows "(f, m) \<in> set (field_violations violation fs kvs)"
  using assms by (force simp: field_violations_def)

lemma calculator_field_violation_fields:
  "calculator_field_violation f v = Some m \<Longrightarrow> f \<in> set [''operacion'', ''a'', ''b'']"
  by (auto simp: calculator_field_violation_def split: if_splits)

lemma greeting_field_violation_fields:
  "greeting_field_violation f v = Some m \<Longrightarrow> f \<in> set [''nombre'', ''formal'']"
  by (auto simp: greeting_field_violation_def split: if_splits)

lemma datetime_field_violation_fields:
  "datetime_field_violation f v = Some m \<Longrightarrow> f \<in> set [''formato'', ''zona_horaria'']"
  by (auto simp: datetime_field_violation_def split: if_splits)

lemma number_violation_not_rule:
  "number_violation msg_segundo_numero v \<noteq> Some msg_dividir_por_cero"
  by (auto simp: number_violation_def msg_segundo_numero_def msg_dividir_por_cero_def
      split: json.splits)

lemma cross_field_only_when_well_typed:
  assumes "(''b'', msg_dividir_por_cero) \<in> set (calculator_violations kvs)"
  shows "\<not> calculator_ill_typed kvs \<and> division_by_zero kvs"
proof (rule ccontr)
  assume "\<not> (\<not> calculator_ill_typed kvs \<and> division_by_zero kvs)"
  then have "calculator_violations kvs
               = field_violations calculator_field_violation [''operacion'', ''a'', ''b''] kvs"
    by (auto simp: calculator_violations_def)
  with assms have "calculator_field_violation ''b'' (js_get kvs ''b'') = Some msg_dividir_por_cero"
    by (auto simp: field_violations_def calculator_field_violation_def split: option.splits)
  then show False
    using number_violation_not_rule by (simp add: calculator_field_violation_def)
qed

lemma refinement_not_run:
  assumes "calculator_ill_typed kvs"
  shows "ZodRefine CalculatorObjectSchema check msg sub [] (JObj kvs)
           = CalculatorObjectSchema [] (JObj kvs)"
  using assms by (simp add: ZodRefine_def CalculatorObjectSchema_obj)

text \<open>
  C2. For every object given as arguments to one of the three resolvers, when at least
  one constraint is violated (so also when several are), the resolver throws an
  \<open>McpError\<close> with the code \<open>InvalidParams\<close> whose message is the report of all the
  violations: after the prefix naming the tool, one pair \<open>field: message\<close> for each, in
  the order of the fields, joined by \<open>; \<close>. Every field that violates its constraint is
  in the list with its message, and every pair of the list occurs in the message. The
  rule on \<open>operacion\<close> and \<open>b\<close> is in the list only when no field of the calculator is of
  the wrong type; when one is (\<open>operacion\<close> or \<open>b\<close> in particular), the refinement does
  not run: the schema gives what the object schema gives, whatever the check is.
\<close>

theorem all_violations_are_reported:
  "(calculator_violations kvs \<noteq> [] \<longrightarrow>
      CalculatorResolver_resolveAndExecute rt (JObj kvs)
        = ([], Inl (McpError InvalidParams
             (report (validation_prefix ''calcular'') (calculator_violations kvs)))))
   \<and> (greeting_violations kvs \<noteq> [] \<longrightarrow>
      GreetingResolver_resolveAndExecute rt (JObj kvs)
        = ([], Inl (McpError InvalidParams
             (report (validation_prefix ''saludo'') (greeting_violations kvs)))))
   \<and> (datetime_violations kvs \<noteq> [] \<longrightarrow>
      DateTimeResolver_resolveAndExecute rt (JObj kvs)
        = ([], Inl (McpError InvalidParams
             (report (validation_prefix ''fecha_actual'') (datetime_violations kvs)))))
   \<and> (\<forall>f m. calculator_field_violation f (js_get kvs f) = Some m
          \<longrightarrow> (f, m) \<in> set (calculator_violations kvs))
   \<and> (\<forall>f m. greeting_field_violation f (js_get kvs f) = Some m
          \<longrightarrow> (f, m) \<in> set (greeting_violations kvs))
   \<and> (\<forall>f m. datetime_field_violation f (js_get kvs f) = Some m
          \<longrightarrow> (f, m) \<in> set (datetime_violations kvs))
   \<and> (\<forall>f m pre vs. (f, m) \<in> set vs \<longrightarrow> sublist (f @ '': '' @ m) (report pre vs))
   \<and> ((''b'', msg_dividir_por_cero) \<in> set (calculator_violations kvs)
        \<longrightarrow> \<not> calculator_ill_typed kvs \<and> division_by_zero kvs)
   \<and> (calculator_ill_typed kvs \<longrightarrow>
        (\<forall>check msg sub. ZodRefine CalculatorObjectSchema check msg sub [] (JObj kvs)
                           = CalculatorObjectSchema [] (JObj kvs)))"
proof (intro conjI impI allI)
  assume "calculator_violations kvs \<noteq> []"
  then show "CalculatorResolver_resolveAndExecute rt (JObj kvs)
        = ([], Inl (McpError InvalidParams
             (report (validation_prefix ''calcular'') (calculator_violations kvs))))"
    by (rule calculator_resolver_invalid)
next
  assume "greeting_violations kvs \<noteq> []"
  then show "GreetingResolver_resolveAndExecute rt (JObj kvs)
        = ([], Inl (McpError InvalidParams
             (report (validation_prefix ''saludo'') (greeting_violations kvs))))"
    by (rule greeting_resolver_invalid)
next
  assume "datetime_violations kvs \<noteq> []"
  then show "DateTimeResolver_resolveAndExecute rt (JObj kvs)
        = ([], Inl (McpError InvalidParams
             (report (validation_prefix ''fecha_actual'') (datetime_violations kvs))))"
    by (rule datetime_resolver_invalid)
next
  fix f m assume v: "calculator_field_violation f (js_get kvs f) = Some m"
  then have "(f, m) \<in> set (field_violations calculator_field_violation [''operacion'', ''a'', ''b''] kvs)"
    by (intro field_violations_complete calculator_field_violation_fields)
  then show "(f, m) \<in> set (calculator_violations kvs)"
    by (simp add: calculator_violations_def)
next
  fix f m assume v: "greeting_field_violation f (js_get kvs f) = Some m"
  then show "(f, m) \<in> set (greeting_violations kvs)"
    unfolding greeting_violations_def
    by (intro field_violations_complete greeting_field_violation_fields)
next
  fix f m assume v: "datetime_field_violation f (js_get kvs f) = Some m"
  then show "(f, m) \<in> set (datetime_violations kvs)"
    unfolding datetime_violations_def
    by (intro field_violations_complete datetime_field_violation_fields)
next
  fix f m pre and vs :: "(string \<times> string) list"
  assume "(f, m) \<in> set vs"
  then show "sublist (f @ '': '' @ m) (report pre vs)" by (rule sublist_report)
next
  assume a: "(''b'', msg_dividir_por_cero) \<in> set (calculator_violations kvs)"
  from cross_field_only_when_well_typed[OF a]
  show "\<not> calculator_ill_typed kvs" and "division_by_zero kvs" by simp_all
next
  fix check msg sub assume "calculator_ill_typed kvs"
  then show "ZodRefine CalculatorObjectSchema check msg sub [] (JObj kvs)
               = CalculatorObjectSchema [] (JObj kvs)"
    by (rule refinement_not_run)
qed

theorem all_violations_are_reported_witness:
  "calculator_violations
     [(''operacion'', JStr ''potencia''), (''a'', JStr ''cinco''), (''b'', JNum PosInf)]
     = [(''operacion'', msg_operacion), (''a'', ''Expected number, received string''),
        (''b'', msg_segundo_numero)]
   \<and> CalculatorResolver_resolveAndExecute example_runtime
       (JObj [(''operacion'', JStr ''potencia''), (''a'', JStr ''cinco''), (''b'', JNum PosInf)])
     = ([], Inl (McpError InvalidParams
          (''Errores de validaci'' @ [o_acute] @ ''n en herramienta 'calcular': ''
           @ ''operacion: '' @ msg_operacion
           @ ''; a: Expected number, received string''
           @ ''; b: '' @ msg_segundo_numero)))
   \<and> greeting_violations [(''nombre'', JStr ''''), (''formal'', JNum (Fin 123))]
     = [(''nombre'', msg_nombre_vacio), (''formal'', ''Expected boolean, received number'')]
   \<and> GreetingResolver_resolveAndExecute example_runtime
       (JObj [(''nombre'', JStr ''''), (''formal'', JNum (Fin 123))])
     = ([], Inl (McpError InvalidParams
          (''Errores de validaci'' @ [o_acute] @ ''n en herramienta 'saludo': ''
           @ ''nombre: '' @ msg_nombre_vacio
           @ ''; formal: Expected boolean, received number'')))
   \<and> calculator_ill_typed [(''operacion'', JStr ''division''), (''a'', JStr ''cinco''), (''b'', JNum (Fin 0))]
   \<and> calculator_violations [(''operacion'', JStr ''division''), (''a'', JStr ''cinco''), (''b'', JNum (Fin 0))]
     = [(''a'', ''Expected number, received string'')]"
proof -
  let ?c = "[(''operacion'', JStr ''potencia''), (''a'', JStr ''cinco''), (''b'', JNum PosInf)]"
  let ?g = "[(''nombre'', JStr ''''), (''formal'', JNum (Fin 123))]"
  let ?d = "[(''operacion'', JStr ''division''), (''a'', JStr ''cinco''), (''b'', JNum (Fin 0))]"
  have c: "calculator_violations ?c
     = [(''operacion'', msg_operacion), (''a'', ''Expected number, received string''),
        (''b'', msg_segundo_numero)]"
    by (simp add: calculator_violations_def field_violations_def calculator_field_violation_def
        enum_violation_def number_violation_def calculator_ill_typed_def js_get_def)
  have g: "greeting_violations ?g
     = [(''nombre'', msg_nombre_vacio), (''formal'', ''Expected boolean, received number'')]"
    by (simp add: greeting_violations_def field_violations_def greeting_field_violation_def
        js_get_def)
  have i: "calculator_ill_typed ?d"
    by (simp add: calculator_ill_typed_def js_get_def is_number_def)
  have d: "calculator_violations ?d = [(''a'', ''Expected number, received string'')]"
    by (simp add: calculator_violations_def field_violations_def calculator_field_violation_def
        enum_violation_def number_violation_def calculator_ill_typed_def js_get_def is_number_def)
  from all_violations_are_reported [of ?c example_runtime]
  have rc: "CalculatorResolver_resolveAndExecute example_runtime (JObj ?c)
        = ([], Inl (McpError InvalidParams
             (report (validation_prefix ''calcular'') (calculator_violations ?c))))"
    by (simp only: c) simp
  from all_violations_are_reported [of ?g example_runtime]
  have rg: "GreetingResolver_resolveAndExecute example_runtime (JObj ?g)
        = ([], Inl (McpError InvalidParams
             (report (validation_prefix ''saludo'') (greeting_violations ?g))))"
    by (simp only: g) simp
  show ?thesis
    using c g i d rc rg by (simp add: report_def validation_prefix_def)
qed

subsection \<open>The default and the coercion of formal\<close>

lemma greeting_no_violation:
  assumes "js_get kvs ''nombre'' = JStr n" "1 \<le> length n" "length n \<le> 100"
    and "js_get kvs ''formal'' = JUndefined \<or> (\<exists>s. js_get kvs ''formal'' = JStr s)
         \<or> (\<exists>x. js_get kvs ''formal'' = JBool x)"
  shows "greeting_violations kvs = []"
  using assms
  by (auto simp: greeting_violations_def field_violations_def greeting_field_violation_def)

lemma greeting_validateInput_ok:
  assumes "greeting_violations kvs = []" "js_get kvs ''nombre'' = JStr n"
  shows "GreetingResolver_validateInput (JObj kvs)
           = Inr \<lparr>nombre = n, formal = formal_value (js_get kvs ''formal'')\<rparr>"
  using assms
  by (simp add: GreetingResolver_validateInput_def greeting_parse as_GreetingInput_def js_get_def)

text \<open>
  C6. For every object whose \<open>nombre\<close> is a string of 1 to 100 characters, validation
  succeeds and: when \<open>formal\<close> is absent the validated \<open>formal\<close> is \<open>false\<close>; when it is a string
  the validated \<open>formal\<close> says whether the string is \<open>true\<close> when case is ignored; when it is
  a boolean it is unchanged.
\<close>

theorem greeting_default_and_coercion:
  assumes "js_get kvs ''nombre'' = JStr n" and "1 \<le> length n" and "length n \<le> 100"
  shows "(\<not> js_in ''formal'' kvs \<longrightarrow>
            zod_parse GreetingInputSchema (JObj kvs)
              = Inr (JObj [(''nombre'', JStr n), (''formal'', JBool False)])
          \<and> GreetingResolver_validateInput (JObj kvs) = Inr \<lparr>nombre = n, formal = False\<rparr>)
       \<and> (\<forall>s. js_get kvs ''formal'' = JStr s \<longrightarrow>
            zod_parse GreetingInputSchema (JObj kvs)
              = Inr (JObj [(''nombre'', JStr n), (''formal'', JBool (true_ignoring_case s))])
          \<and> GreetingResolver_validateInput (JObj kvs)
              = Inr \<lparr>nombre = n, formal = true_ignoring_case s\<rparr>)
       \<and> (\<forall>x. js_get kvs ''formal'' = JBool x \<longrightarrow>
            zod_parse GreetingInputSchema (JObj kvs)
              = Inr (JObj [(''nombre'', JStr n), (''formal'', JBool x)])
          \<and> GreetingResolver_validateInput (JObj kvs) = Inr \<lparr>nombre = n, formal = x\<rparr>)"
proof (intro conjI impI allI)
  assume "\<not> js_in ''formal'' kvs"
  then have f: "js_get kvs ''formal'' = JUndefined" by (simp add: js_in_def js_get_def)
  with assms have v: "greeting_violations kvs = []" by (simp add: greeting_no_violation)
  show "zod_parse GreetingInputSchema (JObj kvs)
              = Inr (JObj [(''nombre'', JStr n), (''formal'', JBool False)])"
    by (simp add: greeting_parse v assms(1) f formal_value_def)
  show "GreetingResolver_validateInput (JObj kvs) = Inr \<lparr>nombre = n, formal = False\<rparr>"
    by (simp add: greeting_validateInput_ok[OF v assms(1)] f formal_value_def)
next
  fix s assume f: "js_get kvs ''formal'' = JStr s"
  with assms have v: "greeting_violations kvs = []" by (simp add: greeting_no_violation)
  show "zod_parse GreetingInputSchema (JObj kvs)
              = Inr (JObj [(''nombre'', JStr n), (''formal'', JBool (true_ignoring_case s))])"
    by (simp add: greeting_parse v assms(1) f formal_value_def)
  show "GreetingResolver_validateInput (JObj kvs)
              = Inr \<lparr>nombre = n, formal = true_ignoring_case s\<rparr>"
    by (simp add: greeting_validateInput_ok[OF v assms(1)] f formal_value_def)
next
  fix x assume f: "js_get kvs ''formal'' = JBool x"
  with assms have v: "greeting_violations kvs = []" by (simp add: greeting_no_violation)
  show "zod_parse GreetingInputSchema (JObj kvs)
              = Inr (JObj [(''nombre'', JStr n), (''formal'', JBool x)])"
    by (simp add: greeting_parse v assms(1) f formal_value_def)
  show "GreetingResolver_validateInput (JObj kvs) = Inr \<lparr>nombre = n, formal = x\<rparr>"
    by (simp add: greeting_validateInput_ok[OF v assms(1)] f formal_value_def)
qed

lemma true_ignoring_case_examples:
  "true_ignoring_case ''TRUE''" "\<not> true_ignoring_case ''false''" "true_ignoring_case ''true''"
  by (simp_all add: true_ignoring_case_def)

theorem greeting_default_and_coercion_witness:
  "GreetingResolver_validateInput (JObj [(''nombre'', JStr ''Ana'')])
     = Inr \<lparr>nombre = ''Ana'', formal = False\<rparr>
   \<and> GreetingResolver_validateInput (JObj [(''nombre'', JStr ''Ana''), (''formal'', JStr ''TRUE'')])
     = Inr \<lparr>nombre = ''Ana'', formal = True\<rparr>
   \<and> GreetingResolver_validateInput (JObj [(''nombre'', JStr ''Ana''), (''formal'', JStr ''false'')])
     = Inr \<lparr>nombre = ''Ana'', formal = False\<rparr>
   \<and> GreetingResolver_validateInput (JObj [(''nombre'', JStr ''Ana''), (''formal'', JBool True)])
     = Inr \<lparr>nombre = ''Ana'', formal = True\<rparr>"
  using greeting_default_and_coercion [of "[(''nombre'', JStr ''Ana'')]" "''Ana''"]
    greeting_default_and_coercion [of "[(''nombre'', JStr ''Ana''), (''formal'', JStr ''TRUE'')]" "''Ana''"]
    greeting_default_and_coercion [of "[(''nombre'', JStr ''Ana''), (''formal'', JStr ''false'')]" "''Ana''"]
    greeting_default_and_coercion [of "[(''nombre'', JStr ''Ana''), (''formal'', JBool True)]" "''Ana''"]
  by (auto simp: js_get_def js_in_def true_ignoring_case_examples)

subsection \<open>Undeclared keys\<close>

lemma map_of_filter_fst:
  "map_of (filter (\<lambda>kv. fst kv \<in> S) kvs) k = (if k \<in> S then map_of kvs k else None)"
  by (induction kvs) auto

lemma js_get_declared_only:
  "k \<in> set (properties d) \<Longrightarrow> js_get (declared_only d kvs) k = js_get kvs k"
  by (simp add: js_get_def declared_only_def map_of_filter_fst)

lemma greeting_declared_only:
  "js_get (declared_only GREETING_TOOL_DEFINITION kvs) ''nombre'' = js_get kvs ''nombre''"
  "js_get (declared_only GREETING_TOOL_DEFINITION kvs) ''formal'' = js_get kvs ''formal''"
  by (simp_all add: js_get_declared_only GREETING_TOOL_DEFINITION_def)

lemma calculator_declared_only:
  "js_get (declared_only CALCULATOR_TOOL_DEFINITION kvs) ''operacion'' = js_get kvs ''operacion''"
  "js_get (declared_only CALCULATOR_TOOL_DEFINITION kvs) ''a'' = js_get kvs ''a''"
  "js_get (declared_only CALCULATOR_TOOL_DEFINITION kvs) ''b'' = js_get kvs ''b''"
  by (simp_all add: js_get_declared_only CALCULATOR_TOOL_DEFINITION_def)

lemma datetime_declared_only:
  "js_get (declared_only DATETIME_TOOL_DEFINITION kvs) ''formato'' = js_get kvs ''formato''"
  "js_get (declared_only DATETIME_TOOL_DEFINITION kvs) ''zona_horaria'' = js_get kvs ''zona_horaria''"
  by (simp_all add: js_get_declared_only DATETIME_TOOL_DEFINITION_def)

lemma calculator_violations_declared_only:
  "calculator_violations (declared_only CALCULATOR_TOOL_DEFINITION kvs) = calculator_violations kvs"
  by (simp add: calculator_violations_def field_violations_def calculator_ill_typed_def
      division_by_zero_def calculator_declared_only)

lemma greeting_violations_declared_only:
  "greeting_violations (declared_only GREETING_TOOL_DEFINITION kvs) = greeting_violations kvs"
  by (simp add: greeting_violations_def field_violations_def greeting_declared_only)

lemma datetime_violations_declared_only:
  "datetime_violations (declared_only DATETIME_TOOL_DEFINITION kvs) = datetime_violations kvs"
  by (simp add: datetime_violations_def field_violations_def datetime_declared_only)

lemma greeting_strips:
  "zod_parse GreetingInputSchema (JObj kvs)
     = zod_parse GreetingInputSchema (JObj (declared_only GREETING_TOOL_DEFINITION kvs))"
  "zod_parse GreetingInputSchema (JObj kvs) = Inr v
     \<Longrightarrow> \<exists>out. v = JObj out \<and> map fst out = properties GREETING_TOOL_DEFINITION"
proof -
  show "zod_parse GreetingInputSchema (JObj kvs)
     = zod_parse GreetingInputSchema (JObj (declared_only GREETING_TOOL_DEFINITION kvs))"
    by (simp add: greeting_parse greeting_violations_declared_only greeting_declared_only)
  show "zod_parse GreetingInputSchema (JObj kvs) = Inr v
     \<Longrightarrow> \<exists>out. v = JObj out \<and> map fst out = properties GREETING_TOOL_DEFINITION"
    by (auto simp: greeting_parse GREETING_TOOL_DEFINITION_def split: if_splits)
qed

lemma calculator_strips:
  "zod_parse CalculatorInputSchema (JObj kvs)
     = zod_parse CalculatorInputSchema (JObj (declared_only CALCULATOR_TOOL_DEFINITION kvs))"
  "zod_parse CalculatorInputSchema (JObj kvs) = Inr v
     \<Longrightarrow> \<exists>out. v = JObj out \<and> map fst out = properties CALCULATOR_TOOL_DEFINITION"
proof -
  show "zod_parse CalculatorInputSchema (JObj kvs)
     = zod_parse CalculatorInputSchema (JObj (declared_only CALCULATOR_TOOL_DEFINITION kvs))"
    by (simp add: calculator_parse calculator_violations_declared_only calculator_declared_only)
  show "zod_parse CalculatorInputSchema (JObj kvs) = Inr v
     \<Longrightarrow> \<exists>out. v = JObj out \<and> map fst out = properties CALCULATOR_TOOL_DEFINITION"
    by (auto simp: calculator_parse CALCULATOR_TOOL_DEFINITION_def split: if_splits)
qed

lemma datetime_strips:
  "zod_parse DateTimeInputSchema (JObj kvs)
     = zod_parse DateTimeInputSchema (JObj (declared_only DATETIME_TOOL_DEFINITION kvs))"
  "zod_parse DateTimeInputSchema (JObj kvs) = Inr v
     \<Longrightarrow> \<exists>out. v = JObj out \<and> map fst out = properties DATETIME_TOOL_DEFINITION"
proof -
  show "zod_parse DateTimeInputSchema (JObj kvs)
     = zod_parse DateTimeInputSchema (JObj (declared_only DATETIME_TOOL_DEFINITION kvs))"
    by (simp add: datetime_parse datetime_violations_declared_only datetime_declared_only)
  show "zod_parse DateTimeInputSchema (JObj kvs) = Inr v
     \<Longrightarrow> \<exists>out. v = JObj out \<and> map fst out = properties DATETIME_TOOL_DEFINITION"
    by (auto simp: datetime_parse DATETIME_TOOL_DEFINITION_def split: if_splits)
qed

text \<open>
  C9. Every advertised tool definition has \<open>additionalProperties: false\<close>, and yet, for
  each of the three schemas and every object, whatever undeclared keys it has: when its
  declared fields satisfy their constraints (the declared part of the object has no
  violation), parsing succeeds, and the validated output holds the declared fields and
  nothing else (for the calculator the three values, for the greeting \<open>nombre\<close> and the
  value of \<open>formal\<close>, for the date and time the two values or their defaults). In every
  case parsing the object gives what parsing it without its undeclared keys gives, and
  the keys of a validated output are exactly the declared properties.
\<close>

theorem undeclared_keys_are_stripped:
  "(\<forall>d \<in> set ToolResolver_getToolDefinitions. additionalProperties d = False)
   \<and> (greeting_violations (declared_only GREETING_TOOL_DEFINITION kvs) = [] \<longrightarrow>
        zod_parse GreetingInputSchema (JObj kvs)
          = Inr (JObj [(''nombre'', js_get kvs ''nombre''),
                       (''formal'', JBool (formal_value (js_get kvs ''formal'')))]))
   \<and> (calculator_violations (declared_only CALCULATOR_TOOL_DEFINITION kvs) = [] \<longrightarrow>
        zod_parse CalculatorInputSchema (JObj kvs)
          = Inr (JObj [(''operacion'', js_get kvs ''operacion''), (''a'', js_get kvs ''a''),
                       (''b'', js_get kvs ''b'')]))
   \<and> (datetime_violations (declared_only DATETIME_TOOL_DEFINITION kvs) = [] \<longrightarrow>
        zod_parse DateTimeInputSchema (JObj kvs)
          = Inr (JObj [(''formato'', or_default (js_get kvs ''formato'') (JStr ''largo'')),
                       (''zona_horaria'',
                        or_default (js_get kvs ''zona_horaria'') (JStr ''Europe/Madrid''))]))
   \<and> (\<forall>(schema, d) \<in> set [(GreetingInputSchema, GREETING_TOOL_DEFINITION),
                             (CalculatorInputSchema, CALCULATOR_TOOL_DEFINITION),
                             (DateTimeInputSchema, DATETIME_TOOL_DEFINITION)].
        zod_parse schema (JObj kvs) = zod_parse schema (JObj (declared_only d kvs))
        \<and> (\<forall>v. zod_parse schema (JObj kvs) = Inr v
               \<longrightarrow> (\<exists>out. v = JObj out \<and> map fst out = properties d)))"
proof -
  have "\<forall>d \<in> set ToolResolver_getToolDefinitions. additionalProperties d = False"
    by (simp add: ToolResolver_getToolDefinitions_def GREETING_TOOL_DEFINITION_def
        CALCULATOR_TOOL_DEFINITION_def DATETIME_TOOL_DEFINITION_def)
  moreover have "greeting_violations (declared_only GREETING_TOOL_DEFINITION kvs) = [] \<longrightarrow>
        zod_parse GreetingInputSchema (JObj kvs)
          = Inr (JObj [(''nombre'', js_get kvs ''nombre''),
                       (''formal'', JBool (formal_value (js_get kvs ''formal'')))])"
    by (simp add: greeting_parse greeting_violations_declared_only)
  moreover have "calculator_violations (declared_only CALCULATOR_TOOL_DEFINITION kvs) = [] \<longrightarrow>
        zod_parse CalculatorInputSchema (JObj kvs)
          = Inr (JObj [(''operacion'', js_get kvs ''operacion''), (''a'', js_get kvs ''a''),
                       (''b'', js_get kvs ''b'')])"
    by (simp add: calculator_parse calculator_violations_declared_only)
  moreover have "datetime_violations (declared_only DATETIME_TOOL_DEFINITION kvs) = [] \<longrightarrow>
        zod_parse DateTimeInputSchema (JObj kvs)
          = Inr (JObj [(''formato'', or_default (js_get kvs ''formato'') (JStr ''largo'')),
                       (''zona_horaria'',
                        or_default (js_get kvs ''zona_horaria'') (JStr ''Europe/Madrid''))])"
    by (simp add: datetime_parse datetime_violations_declared_only)
  moreover have "zod_parse GreetingInputSchema (JObj kvs)
        = zod_parse GreetingInputSchema (JObj (declared_only GREETING_TOOL_DEFINITION kvs))
      \<and> (\<forall>v. zod_parse GreetingInputSchema (JObj kvs) = Inr v
            \<longrightarrow> (\<exists>out. v = JObj out \<and> map fst out = properties GREETING_TOOL_DEFINITION))"
    using greeting_strips by blast
  moreover have "zod_parse CalculatorInputSchema (JObj kvs)
        = zod_parse CalculatorInputSchema (JObj (declared_only CALCULATOR_TOOL_DEFINITION kvs))
      \<and> (\<forall>v. zod_parse CalculatorInputSchema (JObj kvs) = Inr v
            \<longrightarrow> (\<exists>out. v = JObj out \<and> map fst out = properties CALCULATOR_TOOL_DEFINITION))"
    using calculator_strips by blast
  moreover have "zod_parse DateTimeInputSchema (JObj kvs)
        = zod_parse DateTimeInputSchema (JObj (declared_only DATETIME_TOOL_DEFINITION kvs))
      \<and> (\<forall>v. zod_parse DateTimeInputSchema (JObj kvs) = Inr v
            \<longrightarrow> (\<exists>out. v = JObj out \<and> map fst out = properties DATETIME_TOOL_DEFINITION))"
    using datetime_strips by blast
  ultimately show ?thesis by simp
qed

theorem undeclared_keys_are_stripped_witness:
  "GREETING_TOOL_DEFINITION \<in> set ToolResolver_getToolDefinitions
   \<and> additionalProperties GREETING_TOOL_DEFINITION = False
   \<and> declared_only GREETING_TOOL_DEFINITION
        [(''nombre'', JStr ''Ana''), (''apodo'', JStr ''Anita''), (''formal'', JBool True)]
       = [(''nombre'', JStr ''Ana''), (''formal'', JBool True)]
   \<and> greeting_violations [(''nombre'', JStr ''Ana''), (''formal'', JBool True)] = []
   \<and> zod_parse GreetingInputSchema
        (JObj [(''nombre'', JStr ''Ana''), (''apodo'', JStr ''Anita''), (''formal'', JBool True)])
       = Inr (JObj [(''nombre'', JStr ''Ana''), (''formal'', JBool True)])
   \<and> map fst [(''nombre'', JStr ''Ana''), (''formal'', JBool True)]
       = properties GREETING_TOOL_DEFINITION
   \<and> declared_only CALCULATOR_TOOL_DEFINITION
        [(''extra'', JBool True), (''operacion'', JStr ''suma''), (''a'', JNum (Fin 1)),
         (''b'', JNum (Fin 2)), (''c'', JNum (Fin 3))]
       = [(''operacion'', JStr ''suma''), (''a'', JNum (Fin 1)), (''b'', JNum (Fin 2))]
   \<and> calculator_violations
        [(''operacion'', JStr ''suma''), (''a'', JNum (Fin 1)), (''b'', JNum (Fin 2))] = []
   \<and> zod_parse CalculatorInputSchema
        (JObj [(''extra'', JBool True), (''operacion'', JStr ''suma''), (''a'', JNum (Fin 1)),
               (''b'', JNum (Fin 2)), (''c'', JNum (Fin 3))])
       = Inr (JObj [(''operacion'', JStr ''suma''), (''a'', JNum (Fin 1)), (''b'', JNum (Fin 2))])
   \<and> declared_only DATETIME_TOOL_DEFINITION
        [(''formato'', JStr ''iso''), (''idioma'', JStr ''es'')]
       = [(''formato'', JStr ''iso'')]
   \<and> datetime_violations [(''formato'', JStr ''iso'')] = []
   \<and> zod_parse DateTimeInputSchema (JObj [(''formato'', JStr ''iso''), (''idioma'', JStr ''es'')])
       = Inr (JObj [(''formato'', JStr ''iso''), (''zona_horaria'', JStr ''Europe/Madrid'')])
   \<and> map fst [(''formato'', JStr ''iso''), (''zona_horaria'', JStr ''Europe/Madrid'')]
       = properties DATETIME_TOOL_DEFINITION"
proof -
  let ?g = "[(''nombre'', JStr ''Ana''), (''apodo'', JStr ''Anita''), (''formal'', JBool True)]"
  let ?c = "[(''extra'', JBool True), (''operacion'', JStr ''suma''), (''a'', JNum (Fin 1)),
             (''b'', JNum (Fin 2)), (''c'', JNum (Fin 3))]"
  let ?d = "[(''formato'', JStr ''iso''), (''idioma'', JStr ''es'')]"
  have dg: "declared_only GREETING_TOOL_DEFINITION ?g
             = [(''nombre'', JStr ''Ana''), (''formal'', JBool True)]"
    by (simp add: declared_only_def GREETING_TOOL_DEFINITION_def)
  have vg: "greeting_violations [(''nombre'', JStr ''Ana''), (''formal'', JBool True)] = []"
    by (simp add: greeting_violations_def field_violations_def greeting_field_violation_def
        js_get_def string_type_violation_def)
  have dc: "declared_only CALCULATOR_TOOL_DEFINITION ?c
             = [(''operacion'', JStr ''suma''), (''a'', JNum (Fin 1)), (''b'', JNum (Fin 2))]"
    by (simp add: declared_only_def CALCULATOR_TOOL_DEFINITION_def)
  have vc: "calculator_violations
             [(''operacion'', JStr ''suma''), (''a'', JNum (Fin 1)), (''b'', JNum (Fin 2))] = []"
    by (simp add: calculator_violations_def field_violations_def calculator_field_violation_def
        calculator_ill_typed_def division_by_zero_def js_get_def enum_violation_def
        number_violation_def is_number_def)
  have dd: "declared_only DATETIME_TOOL_DEFINITION ?d = [(''formato'', JStr ''iso'')]"
    by (simp add: declared_only_def DATETIME_TOOL_DEFINITION_def)
  have vd: "datetime_violations [(''formato'', JStr ''iso'')] = []"
    by (simp add: datetime_violations_def field_violations_def datetime_field_violation_def
        js_get_def enum_violation_def string_type_violation_def)
  have m: "GREETING_TOOL_DEFINITION \<in> set ToolResolver_getToolDefinitions"
    by (simp add: ToolResolver_getToolDefinitions_def)
  have g: "zod_parse GreetingInputSchema (JObj ?g)
             = Inr (JObj [(''nombre'', JStr ''Ana''), (''formal'', JBool True)])"
    using undeclared_keys_are_stripped [of ?g] dg vg
    by (simp add: js_get_def formal_value_def)
  have c: "zod_parse CalculatorInputSchema (JObj ?c)
             = Inr (JObj [(''operacion'', JStr ''suma''), (''a'', JNum (Fin 1)),
                          (''b'', JNum (Fin 2))])"
    using undeclared_keys_are_stripped [of ?c] dc vc
    by (simp add: js_get_def)
  have d: "zod_parse DateTimeInputSchema (JObj ?d)
             = Inr (JObj [(''formato'', JStr ''iso''), (''zona_horaria'', JStr ''Europe/Madrid'')])"
    using undeclared_keys_are_stripped [of ?d] dd vd
    by (simp add: js_get_def or_default_def)
  from undeclared_keys_are_stripped [of ?g] m dg vg g c d dc vc dd vd show ?thesis
    by (simp add: GREETING_TOOL_DEFINITION_def DATETIME_TOOL_DEFINITION_def)
qed

section \<open>Properties of the use cases\<close>

text \<open>
  C8. For every hour of the clock and every validated input, the greeting use case takes
  the salutation of the morning when the hour is below 12, of the afternoon when it is
  from 12 and below 18, of the evening when it is from 18, and with that salutation the
  formal phrasing when \<open>formal\<close> is set and the informal one otherwise; the two phrasings
  differ.
\<close>

theorem greeting_bands:
  "(getHours rt < 12 \<longrightarrow>
      GreetingUseCase_execute rt input
        = Inr \<lparr>content = [TextContent (band_text (formal input) buenos_dias (nombre input))]\<rparr>)
   \<and> (12 \<le> getHours rt \<and> getHours rt < 18 \<longrightarrow>
      GreetingUseCase_execute rt input
        = Inr \<lparr>content = [TextContent (band_text (formal input) ''Buenas tardes'' (nombre input))]\<rparr>)
   \<and> (18 \<le> getHours rt \<longrightarrow>
      GreetingUseCase_execute rt input
        = Inr \<lparr>content = [TextContent (band_text (formal input) ''Buenas noches'' (nombre input))]\<rparr>)
   \<and> saludo_formal s n \<noteq> saludo_informal s n"
proof (intro conjI impI)
  show "saludo_formal s n \<noteq> saludo_informal s n"
  proof
    assume "saludo_formal s n = saludo_informal s n"
    then have "length (saludo_formal s n) = length (saludo_informal s n)" by simp
    then show False by (simp add: saludo_formal_def saludo_informal_def)
  qed
qed (simp_all add: GreetingUseCase_execute_def band_text_def saludo_formal_def
       saludo_informal_def buenos_dias_def)

theorem greeting_bands_witness:
  "getHours example_runtime < 12
   \<and> GreetingUseCase_execute example_runtime \<lparr>nombre = ''Ana'', formal = True\<rparr>
       = Inr \<lparr>content = [TextContent (''Buenos d'' @ [i_acute] @ ''as, Ana. Es un placer saludarle. ''
                @ ''Espero que tenga un excelente d'' @ [i_acute] @ ''a.'')]\<rparr>
   \<and> GreetingUseCase_execute (example_runtime\<lparr>getHours := 15\<rparr>) \<lparr>nombre = ''Ana'', formal = False\<rparr>
       = Inr \<lparr>content = [TextContent (band_text False ''Buenas tardes'' ''Ana'')]\<rparr>
   \<and> GreetingUseCase_execute (example_runtime\<lparr>getHours := 18\<rparr>) \<lparr>nombre = ''Ana'', formal = True\<rparr>
       = Inr \<lparr>content = [TextContent (band_text True ''Buenas noches'' ''Ana'')]\<rparr>"
  using greeting_bands [of example_runtime "\<lparr>nombre = ''Ana'', formal = True\<rparr>"]
    greeting_bands [of "example_runtime\<lparr>getHours := 15\<rparr>" "\<lparr>nombre = ''Ana'', formal = False\<rparr>"]
    greeting_bands [of "example_runtime\<lparr>getHours := 18\<rparr>" "\<lparr>nombre = ''Ana'', formal = True\<rparr>"]
  by (simp add: example_runtime_def band_text_def saludo_formal_def buenos_dias_def)


section \<open>Properties of the date and time tool\<close>

lemma datetime_validateInput_ok:
  assumes "datetime_violations kvs = []"
  shows "DateTimeResolver_validateInput (JObj kvs)
           = Inr \<lparr>formato = validated_formato kvs, zona_horaria = validated_zona_horaria kvs\<rparr>"
  using assms
  by (simp add: DateTimeResolver_validateInput_def datetime_parse as_DateTimeInput_def js_get_def
      validated_formato_def validated_zona_horaria_def)

lemma datetime_formato_valid:
  assumes "datetime_violations kvs = []"
  shows "validated_formato kvs \<in> set [''corto'', ''largo'', ''hora'', ''completo'', ''iso'']"
proof -
  from assms have "datetime_field_violation ''formato'' (js_get kvs ''formato'') = None"
    by (auto simp: datetime_violations_def field_violations_def split: option.splits)
  then show ?thesis
    by (auto simp: datetime_field_violation_def enum_violation_def validated_formato_def
        or_default_def split: if_splits)
qed

lemma fechaFormateada_invalid_time_zone:
  assumes "formato input \<noteq> ''iso''" "\<not> validTimeZone rt (zona_horaria input)"
  shows "fechaFormateada rt input = Inl (Error (invalidTimeZoneMessage rt (zona_horaria input)))"
  using assms by (simp add: fechaFormateada_def toLocale_def)

lemma execute_invalid_time_zone:
  assumes "formato input \<noteq> ''iso''" "\<not> validTimeZone rt (zona_horaria input)"
  shows "DateTimeUseCase_execute rt input
           = Inl (Error (''Error al formatear la fecha: ''
                         @ invalidTimeZoneMessage rt (zona_horaria input)))"
  by (simp add: DateTimeUseCase_execute_def fechaFormateada_invalid_time_zone[OF assms])

lemma execute_valid_time_zone:
  assumes "validTimeZone rt (zona_horaria input)"
  shows "\<exists>r. DateTimeUseCase_execute rt input = Inr r"
  using assms by (simp add: DateTimeUseCase_execute_def fechaFormateada_def toLocale_def Let_def)

lemma execute_iso:
  assumes "formato input = ''iso''"
  shows "fechaFormateada rt input = Inr (toISOString rt)"
    and "DateTimeUseCase_execute rt input
           = Inr \<lparr>content = [TextContent (''La fecha actual es: '' @ toISOString rt
                    @ (if zona_horaria input \<noteq> ''Europe/Madrid''
                       then '' (Zona horaria: '' @ zona_horaria input @ '')'' else []))]\<rparr>"
  using assms by (simp_all add: DateTimeUseCase_execute_def fechaFormateada_def)

text \<open>
  C10. The date and time use case with the format \<open>iso\<close> formats with \<open>toISOString\<close>, which
  takes no time zone, and returns a result whatever the string \<open>zona_horaria\<close> is, an
  invalid identifier too. It does not ignore the field: the result text ends with the
  time zone, in brackets, whenever it is not \<open>Europe/Madrid\<close>. With one of the formats
  \<open>corto\<close>, \<open>hora\<close>, \<open>completo\<close> and \<open>largo\<close> the time zone goes to the formatter: the use
  case returns a result when the runtime accepts the time zone, and throws the error of
  the formatting, with the message of the runtime, when it does not.
\<close>

theorem iso_never_consults_time_zone:
  "(formato input = ''iso'' \<longrightarrow>
      fechaFormateada rt input = Inr (toISOString rt)
      \<and> DateTimeUseCase_execute rt input
          = Inr \<lparr>content = [TextContent (''La fecha actual es: '' @ toISOString rt
                   @ (if zona_horaria input \<noteq> ''Europe/Madrid''
                      then '' (Zona horaria: '' @ zona_horaria input @ '')'' else []))]\<rparr>)
   \<and> (formato input \<in> set [''corto'', ''hora'', ''completo'', ''largo''] \<longrightarrow>
        (validTimeZone rt (zona_horaria input)
           \<longrightarrow> (\<exists>r. DateTimeUseCase_execute rt input = Inr r))
      \<and> (\<not> validTimeZone rt (zona_horaria input)
           \<longrightarrow> DateTimeUseCase_execute rt input
                 = Inl (Error (''Error al formatear la fecha: ''
                               @ invalidTimeZoneMessage rt (zona_horaria input)))))"
proof (intro conjI impI)
  assume "formato input = ''iso''"
  then show "fechaFormateada rt input = Inr (toISOString rt)"
    and "DateTimeUseCase_execute rt input
          = Inr \<lparr>content = [TextContent (''La fecha actual es: '' @ toISOString rt
                   @ (if zona_horaria input \<noteq> ''Europe/Madrid''
                      then '' (Zona horaria: '' @ zona_horaria input @ '')'' else []))]\<rparr>"
    by (rule execute_iso)+
next
  assume "validTimeZone rt (zona_horaria input)"
  then show "\<exists>r. DateTimeUseCase_execute rt input = Inr r" by (rule execute_valid_time_zone)
next
  assume "formato input \<in> set [''corto'', ''hora'', ''completo'', ''largo'']"
    and "\<not> validTimeZone rt (zona_horaria input)"
  then show "DateTimeUseCase_execute rt input
                 = Inl (Error (''Error al formatear la fecha: ''
                               @ invalidTimeZoneMessage rt (zona_horaria input)))"
    by (intro execute_invalid_time_zone) auto
qed

theorem iso_never_consults_time_zone_witness:
  "DateTimeUseCase_execute example_runtime \<lparr>formato = ''iso'', zona_horaria = ''Not/AZone''\<rparr>
     = Inr \<lparr>content = [TextContent
            ''La fecha actual es: 2024-01-15T09:30:00.000Z (Zona horaria: Not/AZone)'']\<rparr>
   \<and> \<not> validTimeZone example_runtime ''Not/AZone''
   \<and> DateTimeUseCase_execute example_runtime \<lparr>formato = ''corto'', zona_horaria = ''Not/AZone''\<rparr>
     = Inl (Error ''Error al formatear la fecha: Invalid time zone specified: Not/AZone'')
   \<and> validTimeZone example_runtime ''UTC''
   \<and> (\<exists>r. DateTimeUseCase_execute example_runtime \<lparr>formato = ''corto'', zona_horaria = ''UTC''\<rparr>
            = Inr r)"
  using iso_never_consults_time_zone
      [of "\<lparr>formato = ''iso'', zona_horaria = ''Not/AZone''\<rparr>" example_runtime]
    iso_never_consults_time_zone
      [of "\<lparr>formato = ''corto'', zona_horaria = ''Not/AZone''\<rparr>" example_runtime]
    iso_never_consults_time_zone
      [of "\<lparr>formato = ''corto'', zona_horaria = ''UTC''\<rparr>" example_runtime]
  by (simp add: example_runtime_def)

text \<open>
  With the format \<open>iso\<close>, two time zones give two different results: the field is read.
\<close>

theorem iso_echoes_time_zone:
  "DateTimeUseCase_execute example_runtime \<lparr>formato = ''iso'', zona_horaria = ''Europe/Madrid''\<rparr>
     = Inr \<lparr>content = [TextContent ''La fecha actual es: 2024-01-15T09:30:00.000Z'']\<rparr>
   \<and> DateTimeUseCase_execute example_runtime \<lparr>formato = ''iso'', zona_horaria = ''UTC''\<rparr>
     = Inr \<lparr>content = [TextContent
            ''La fecha actual es: 2024-01-15T09:30:00.000Z (Zona horaria: UTC)'']\<rparr>
   \<and> DateTimeUseCase_execute example_runtime \<lparr>formato = ''iso'', zona_horaria = ''UTC''\<rparr>
     \<noteq> DateTimeUseCase_execute example_runtime
         \<lparr>formato = ''iso'', zona_horaria = ''Europe/Madrid''\<rparr>"
  by code_simp

subsection \<open>The errors of an invocation\<close>

lemma catch_is_typed:
  "\<exists>c m. GreetingResolver_catch e = McpError c m"
  "\<exists>c m. CalculatorResolver_catch e = McpError c m"
  "\<exists>c m. DateTimeResolver_catch e = McpError c m"
  "\<exists>c m. ToolResolver_catch t e = McpError c m"
  by (cases e; simp add: GreetingResolver_catch_def CalculatorResolver_catch_def
        DateTimeResolver_catch_def ToolResolver_catch_def)+

lemma resolver_failure_is_typed:
  "snd (GreetingResolver_resolveAndExecute rt args) = Inl e \<Longrightarrow> \<exists>c m. e = McpError c m"
  "snd (CalculatorResolver_resolveAndExecute rt args) = Inl e \<Longrightarrow> \<exists>c m. e = McpError c m"
  "snd (DateTimeResolver_resolveAndExecute rt args) = Inl e \<Longrightarrow> \<exists>c m. e = McpError c m"
  using catch_is_typed(1-3)
  by (auto simp: GreetingResolver_resolveAndExecute_def CalculatorResolver_resolveAndExecute_def
      DateTimeResolver_resolveAndExecute_def split: sum.splits)

lemma invocation_failure_is_typed:
  assumes "snd (ToolResolver_resolveAndExecute rt t args) = Inl e"
  shows "\<exists>c m. e = McpError c m"
  using assms catch_is_typed(4)[of t]
  by (auto simp: ToolResolver_resolveAndExecute_def delegate_def split: if_splits sum.splits)

text \<open>
  C3. Of the errors that reach a \<open>catch\<close> block of a resolver or of the dispatcher: an
  \<open>McpError\<close> is thrown again unchanged; an \<open>Error\<close> is wrapped into an \<open>McpError\<close> with the
  code \<open>InternalError\<close>, whose message names the tool and ends with the message of the
  error; a \<open>ZodError\<close>, which is no \<open>McpError\<close>, is not wrapped so: a resolver turns it
  into an \<open>McpError\<close> with the code \<open>InvalidParams\<close> and the report of its issues. The
  date and time tool, called with a valid input whose format is not \<open>iso\<close> and whose time
  zone the runtime rejects, throws an \<open>McpError\<close> with the code \<open>InternalError\<close> whose
  message holds the text of the formatting failure and the message of the runtime. And
  whatever the tool name and the arguments, an invocation that fails throws an
  \<open>McpError\<close>.
\<close>

theorem error_wrapping:
  "(GreetingResolver_catch (McpError c m) = McpError c m
    \<and> CalculatorResolver_catch (McpError c m) = McpError c m
    \<and> DateTimeResolver_catch (McpError c m) = McpError c m
    \<and> ToolResolver_catch t (McpError c m) = McpError c m)
   \<and> (GreetingResolver_catch (Error m)
         = McpError InternalError (''Error interno en herramienta 'saludo': '' @ m)
      \<and> CalculatorResolver_catch (Error m)
         = McpError InternalError (''Error interno en herramienta 'calcular': '' @ m)
      \<and> DateTimeResolver_catch (Error m)
         = McpError InternalError (''Error interno en herramienta 'fecha_actual': '' @ m)
      \<and> ToolResolver_catch t (Error m)
         = McpError InternalError
             (''Error interno en herramienta '' @ [apostrophe] @ t @ [apostrophe] @ '': '' @ m))
   \<and> (GreetingResolver_catch (ZodError es)
         = McpError InvalidParams (validation_prefix ''saludo'' @ formattedErrors es)
      \<and> CalculatorResolver_catch (ZodError es)
         = McpError InvalidParams (validation_prefix ''calcular'' @ formattedErrors es)
      \<and> DateTimeResolver_catch (ZodError es)
         = McpError InvalidParams (validation_prefix ''fecha_actual'' @ formattedErrors es))
   \<and> (datetime_violations kvs = [] \<and> validated_formato kvs \<noteq> ''iso''
        \<and> \<not> validTimeZone rt (validated_zona_horaria kvs) \<longrightarrow>
        ToolResolver_resolveAndExecute rt ''fecha_actual'' (JObj kvs)
          = ([ResolverCall ''fecha_actual'', UseCaseCall ''fecha_actual''],
             Inl (McpError InternalError
                    (''Error interno en herramienta 'fecha_actual': ''
                     @ ''Error al formatear la fecha: ''
                     @ invalidTimeZoneMessage rt (validated_zona_horaria kvs)))))
   \<and> (\<forall>e. snd (ToolResolver_resolveAndExecute rt t args) = Inl e
          \<longrightarrow> (\<exists>c m. e = McpError c m))"
proof (intro conjI impI allI)
  fix e assume "snd (ToolResolver_resolveAndExecute rt t args) = Inl e"
  then show "\<exists>c m. e = McpError c m" by (rule invocation_failure_is_typed)
next
  assume a: "datetime_violations kvs = [] \<and> validated_formato kvs \<noteq> ''iso''
        \<and> \<not> validTimeZone rt (validated_zona_horaria kvs)"
  let ?input = "\<lparr>formato = validated_formato kvs, zona_horaria = validated_zona_horaria kvs\<rparr>"
  from a have v: "DateTimeResolver_validateInput (JObj kvs) = Inr ?input"
    by (simp add: datetime_validateInput_ok)
  from a have e: "DateTimeUseCase_execute rt ?input
           = Inl (Error (''Error al formatear la fecha: ''
                         @ invalidTimeZoneMessage rt (validated_zona_horaria kvs)))"
    using execute_invalid_time_zone[of ?input rt] by simp
  show "ToolResolver_resolveAndExecute rt ''fecha_actual'' (JObj kvs)
          = ([ResolverCall ''fecha_actual'', UseCaseCall ''fecha_actual''],
             Inl (McpError InternalError
                    (''Error interno en herramienta 'fecha_actual': ''
                     @ ''Error al formatear la fecha: ''
                     @ invalidTimeZoneMessage rt (validated_zona_horaria kvs))))"
    by (simp add: ToolResolver_resolveAndExecute_def delegate_def
        DateTimeResolver_resolveAndExecute_def v e DateTimeResolver_catch_def
        ToolResolver_catch_def)
qed (simp_all add: GreetingResolver_catch_def CalculatorResolver_catch_def
       DateTimeResolver_catch_def ToolResolver_catch_def validation_prefix_def)

theorem error_wrapping_witness:
  "datetime_violations [(''formato'', JStr ''corto''), (''zona_horaria'', JStr ''Not/AZone'')] = []
   \<and> validated_formato [(''formato'', JStr ''corto''), (''zona_horaria'', JStr ''Not/AZone'')] \<noteq> ''iso''
   \<and> \<not> validTimeZone example_runtime ''Not/AZone''
   \<and> ToolResolver_resolveAndExecute example_runtime ''fecha_actual''
        (JObj [(''formato'', JStr ''corto''), (''zona_horaria'', JStr ''Not/AZone'')])
       = ([ResolverCall ''fecha_actual'', UseCaseCall ''fecha_actual''],
          Inl (McpError InternalError
                 (''Error interno en herramienta 'fecha_actual': Error al formatear la fecha: ''
                  @ ''Invalid time zone specified: Not/AZone'')))"
proof -
  let ?kvs = "[(''formato'', JStr ''corto''), (''zona_horaria'', JStr ''Not/AZone'')]"
  have v: "datetime_violations ?kvs = []"
    by (simp add: datetime_violations_def field_violations_def datetime_field_violation_def
        enum_violation_def string_type_violation_def js_get_def)
  have f: "validated_formato ?kvs = ''corto''"
    by (simp add: validated_formato_def or_default_def js_get_def)
  have z: "validated_zona_horaria ?kvs = ''Not/AZone''"
    by (simp add: validated_zona_horaria_def or_default_def js_get_def)
  have t: "\<not> validTimeZone example_runtime ''Not/AZone''"
    by (simp add: example_runtime_def)
  from error_wrapping [of _ _ _ _ ?kvs example_runtime] v f z t
  show ?thesis by (simp add: example_runtime_def)
qed

text \<open>
  A validation error is wrapped with the code \<open>InvalidParams\<close>, not \<open>InternalError\<close>; and
  with the format \<open>iso\<close> an invalid time zone gives a result, not an error.
\<close>

theorem error_wrapping_counterexample:
  "zod_parse CalculatorInputSchema
     (JObj [(''operacion'', JStr ''division''), (''a'', JNum (Fin 5)), (''b'', JNum (Fin 0))])
     = Inl (ZodError [ZodIssue [''b''] ''No se puede dividir por cero''])
   \<and> CalculatorResolver_catch (ZodError [ZodIssue [''b''] ''No se puede dividir por cero''])
     = McpError InvalidParams
         (''Errores de validaci'' @ [o_acute]
          @ ''n en herramienta 'calcular': b: No se puede dividir por cero'')
   \<and> \<not> validTimeZone example_runtime ''Not/AZone''
   \<and> ToolResolver_resolveAndExecute example_runtime ''fecha_actual''
        (JObj [(''formato'', JStr ''iso''), (''zona_horaria'', JStr ''Not/AZone'')])
     = ([ResolverCall ''fecha_actual'', UseCaseCall ''fecha_actual''],
        Inr \<lparr>content = [TextContent
               ''La fecha actual es: 2024-01-15T09:30:00.000Z (Zona horaria: Not/AZone)'']\<rparr>)"
  by code_simp

section \<open>Properties of the number formatting\<close>

subsection \<open>Decimal digits\<close>


lemma digit_zero_iff: "d < 10 \<Longrightarrow> char_of (48 + d :: nat) = CHR ''0'' \<longleftrightarrow> d = 0"
  by (auto simp: char_of_eq_iff take_bit_eq_mod)




lemma length_last_digits [simp]: "length (last_digits k n) = k"
  by (induction k arbitrary: n) auto









subsection \<open>Six decimals, and the zeros that end them\<close>

















subsection \<open>The validated input of the calculator\<close>









subsection \<open>The results of the arithmetic\<close>










subsection \<open>Examples of arithmetic and of texts\<close>






















subsection \<open>The text of the result\<close>




section \<open>Properties of the dispatcher\<close>

lemma registered_names_eq: "registered_names = [''saludo'', ''calcular'', ''fecha_actual'']"
  by (simp add: registered_names_def ToolResolver_getToolDefinitions_def
      GREETING_TOOL_DEFINITION_def CALCULATOR_TOOL_DEFINITION_def DATETIME_TOOL_DEFINITION_def)

lemma unknown_message_lists_names:
  assumes "n \<in> set registered_names"
  shows "sublist n (''Herramienta desconocida: '' @ t
           @ ''. Herramientas disponibles: saludo, calcular, fecha_actual'')"
    (is "sublist n ?msg")
proof -
  from assms consider "n = ''saludo''" | "n = ''calcular''" | "n = ''fecha_actual''"
    by (auto simp: registered_names_eq)
  then show ?thesis
  proof cases
    case 1
    have "?msg = (''Herramienta desconocida: '' @ t @ ''. Herramientas disponibles: '')
                 @ ''saludo'' @ '', calcular, fecha_actual''"
      by simp
    then show ?thesis unfolding 1 by (metis sublist_appendI)
  next
    case 2
    have "?msg = (''Herramienta desconocida: '' @ t @ ''. Herramientas disponibles: saludo, '')
                 @ ''calcular'' @ '', fecha_actual''"
      by simp
    then show ?thesis unfolding 2 by (metis sublist_appendI)
  next
    case 3
    have "?msg = (''Herramienta desconocida: '' @ t
                  @ ''. Herramientas disponibles: saludo, calcular, '') @ ''fecha_actual'' @ []"
      by simp
    then show ?thesis unfolding 3 by (metis sublist_appendI)
  qed
qed

text \<open>
  C4. A tool name that is not a registered name (\<open>saludo\<close>, \<open>calcular\<close>, \<open>fecha_actual\<close>)
  makes the dispatcher throw an \<open>McpError\<close> with the code \<open>MethodNotFound\<close>; every
  registered name occurs in its message; no resolver and no use case is called (the list
  of calls is empty).
\<close>

theorem unknown_operation:
  assumes "toolName \<notin> set registered_names"
  shows "\<exists>msg. ToolResolver_resolveAndExecute rt toolName args
                 = ([], Inl (McpError MethodNotFound msg))
               \<and> (\<forall>n \<in> set registered_names. sublist n msg)"
proof (intro exI conjI ballI)
  from assms show "ToolResolver_resolveAndExecute rt toolName args
      = ([], Inl (McpError MethodNotFound (''Herramienta desconocida: '' @ toolName
           @ ''. Herramientas disponibles: saludo, calcular, fecha_actual'')))"
    by (simp add: ToolResolver_resolveAndExecute_def ToolResolver_catch_def registered_names_eq)
next
  fix n assume "n \<in> set registered_names"
  then show "sublist n (''Herramienta desconocida: '' @ toolName
           @ ''. Herramientas disponibles: saludo, calcular, fecha_actual'')"
    by (rule unknown_message_lists_names)
qed

theorem unknown_operation_witness:
  "''does-not-exist'' \<notin> set registered_names
   \<and> (\<exists>msg. ToolResolver_resolveAndExecute example_runtime ''does-not-exist'' (JObj [])
               = ([], Inl (McpError MethodNotFound msg))
             \<and> sublist ''saludo'' msg \<and> sublist ''calcular'' msg
             \<and> sublist ''fecha_actual'' msg)"
proof -
  have h: "''does-not-exist'' \<notin> set registered_names"
    by (simp add: registered_names_eq)
  from unknown_operation [OF h, of example_runtime "JObj []"] h
  show ?thesis by (simp only: registered_names_eq) auto
qed

end
